theory Spec2Isabelle
  imports Complex_Main
begin

section \<open>Student records and the Python built-ins the code calls\<close>

text \<open>
  A student is a \<^verbatim>\<open>Dict[str, str]\<close> with the four keys
  \<^verbatim>\<open>roll_number, name, age, marks\<close>: the dict that \<^verbatim>\<open>add_student\<close> and
  \<^verbatim>\<open>StudentDialog.save_student\<close> build and that \<^verbatim>\<open>csv.DictWriter\<close> is given.
  The entries of the dialog form have the same four keys and use the same record.
  A \<^verbatim>\<open>str\<close> is a list of characters, \<^verbatim>\<open>len\<close> its length; the characters are
  those of \<open>char\<close>, the code points below 256.
\<close>

record student =
  roll_number :: string
  name :: string
  age :: string
  marks :: string

text \<open>
  A Python \<^verbatim>\<open>float\<close> is a finite number, an infinity or nan. A finite float is
  modelled by the real number it denotes (negative zero is not told from zero);
  comparisons follow IEEE 754 (every comparison with nan is false), and a comparison of
  a float with an \<^verbatim>\<open>int\<close> literal is the comparison with \<open>Finite\<close> of that integer,
  which Python computes exactly.
\<close>

datatype py_float = Finite real | PosInf | NegInf | NaN

fun flt_less :: "py_float \<Rightarrow> py_float \<Rightarrow> bool" where
  "flt_less (Finite x) (Finite y) = (x < y)"
| "flt_less (Finite x) PosInf = True"
| "flt_less NegInf (Finite y) = True"
| "flt_less NegInf PosInf = True"
| "flt_less a b = False"

definition flt_le :: "py_float \<Rightarrow> py_float \<Rightarrow> bool" where
  "flt_le a b = (flt_less a b \<or> (a = b \<and> a \<noteq> NaN))"

text \<open>
  The built-ins of \<^verbatim>\<open>str\<close>, \<^verbatim>\<open>int\<close> and \<^verbatim>\<open>float\<close> that the code calls are
  parameters of the model: \<open>strip\<close>, \<open>lower\<close>, \<open>title\<close> are the string methods,
  \<open>int_of\<close> is \<^verbatim>\<open>int(s)\<close> and \<open>float_of\<close> is \<^verbatim>\<open>float(s)\<close> (\<open>None\<close> when
  they raise \<^verbatim>\<open>ValueError\<close>), \<open>str_float\<close> is \<^verbatim>\<open>str(x)\<close> of a float.
  Every general theorem below holds for all of them.
\<close>

record builtins =
  strip :: "string \<Rightarrow> string"
  lower :: "string \<Rightarrow> string"
  title :: "string \<Rightarrow> string"
  int_of :: "string \<Rightarrow> int option"
  float_of :: "string \<Rightarrow> py_float option"
  str_float :: "py_float \<Rightarrow> string"

text \<open>\<^verbatim>\<open>str(n)\<close> of an \<^verbatim>\<open>int\<close>: the decimal digits, with a minus sign when negative.\<close>

definition digit_char :: "nat \<Rightarrow> char" where
  "digit_char d = char_of (48 + d)"

fun str_nat :: "nat \<Rightarrow> string" where
  "str_nat n = (if n < 10 then [digit_char n] else str_nat (n div 10) @ [digit_char (n mod 10)])"

definition str_int :: "int \<Rightarrow> string" where
  "str_int i = (if i < 0 then CHR ''-'' # str_nat (nat (- i)) else str_nat (nat i))"

section \<open>Validation and grading (student_management_system.py)\<close>

definition validate_roll_number :: "student list \<Rightarrow> string \<Rightarrow> bool" where
  "validate_roll_number students r = (\<not> list_ex (\<lambda>s. roll_number s = r) students)"

definition validate_age :: "builtins \<Rightarrow> string \<Rightarrow> int option" where
  "validate_age B age_str =
     (case int_of B age_str of
        None \<Rightarrow> None
      | Some a \<Rightarrow> if a < 1 \<or> a > 150 then None else Some a)"

definition validate_marks :: "builtins \<Rightarrow> string \<Rightarrow> py_float option" where
  "validate_marks B marks_str =
     (case float_of B marks_str of
        None \<Rightarrow> None
      | Some m \<Rightarrow> if flt_less m (Finite 0) \<or> flt_less (Finite 100) m then None else Some m)"

definition validate_name :: "builtins \<Rightarrow> string \<Rightarrow> bool" where
  "validate_name B n = (strip B n \<noteq> [] \<and> length (strip B n) \<ge> 2)"

definition calculate_grade :: "py_float \<Rightarrow> string" where
  "calculate_grade m =
     (if flt_le (Finite 90) m then ''A+''
      else if flt_le (Finite 80) m then ''A''
      else if flt_le (Finite 70) m then ''B+''
      else if flt_le (Finite 60) m then ''B''
      else if flt_le (Finite 50) m then ''C''
      else if flt_le (Finite 40) m then ''D''
      else ''F'')"

text \<open>The GUI classes carry their own copy of the grading function (student_gui.py).\<close>

definition gui_calculate_grade :: "py_float \<Rightarrow> string" where
  "gui_calculate_grade m =
     (if flt_le (Finite 90) m then ''A+''
      else if flt_le (Finite 80) m then ''A''
      else if flt_le (Finite 70) m then ''B+''
      else if flt_le (Finite 60) m then ''B''
      else if flt_le (Finite 50) m then ''C''
      else if flt_le (Finite 40) m then ''D''
      else ''F'')"

section \<open>The store and its file (load_data, save_data)\<close>

text \<open>
  The exceptions that matter to the modelled paths. \<open>EOFError\<close> is what
  \<^verbatim>\<open>input()\<close> raises when standard input is exhausted, \<open>AttributeError\<close> what
  reading an attribute that the object does not have yet raises.
\<close>

datatype exn = EOFError | ValueError | OSError | UnicodeDecodeError | CsvError | AttributeError

text \<open>
  The file at \<^verbatim>\<open>self.filename\<close>. The \<^verbatim>\<open>csv\<close> module is taken at its row
  interface: an existing file that can be read holds the rows \<^verbatim>\<open>csv.writer\<close> was
  given when the program wrote the file, and \<^verbatim>\<open>csv.reader\<close> yields these rows,
  unless a field is longer than the reader's field size limit, on which it raises
  \<^verbatim>\<open>csv.Error\<close>; an empty file holds no row. \<open>Unreadable e\<close> is an existing file on
  which opening, decoding or parsing raises \<open>e\<close> for another reason. \<open>writable\<close>
  tells whether \<^verbatim>\<open>open(filename, 'w')\<close> succeeds.
\<close>

datatype csv_file = Absent | Unreadable exn | Csv "string list list"

record store =
  students :: "student list"
  disk :: csv_file
  writable :: bool

datatype load_msg = Loaded nat | NoDataFile | ErrorLoading exn

datatype save_msg = Saved | ErrorSaving exn

definition fieldnames :: "string list" where
  "fieldnames = [''roll_number'', ''name'', ''age'', ''marks'']"

text \<open>\<^verbatim>\<open>DictWriter._dict_to_list\<close>: the values in the order of \<open>fieldnames\<close>.\<close>

definition dict_to_list :: "student \<Rightarrow> string list" where
  "dict_to_list s = [roll_number s, name s, age s, marks s]"

text \<open>
  \<^verbatim>\<open>csv.field_size_limit()\<close>, which the code leaves at its default: the reader
  raises \<^verbatim>\<open>csv.Error\<close> on a field of more characters. \<^verbatim>\<open>list(reader)\<close> reads
  every row, the header too, so one such field anywhere makes it raise.
\<close>

definition field_size_limit :: nat where
  "field_size_limit = 131072"

definition over_limit :: "string list list \<Rightarrow> bool" where
  "over_limit rows = list_ex (\<lambda>row. list_ex (\<lambda>field. length field > field_size_limit) row) rows"

text \<open>
  The row dict \<^verbatim>\<open>dict(zip(fieldnames, row))\<close> of \<^verbatim>\<open>csv.DictReader\<close>, as a
  student. The result is \<open>None\<close> when the dict is not a student dict, that is when it
  lacks one of the four keys or has another key; the code loads such a dict as it is,
  and the model has no value for it.
\<close>

definition student_of_dict :: "(string \<times> string) list \<Rightarrow> student option" where
  "student_of_dict d =
     (case (map_of d ''roll_number'', map_of d ''name'', map_of d ''age'', map_of d ''marks'') of
        (Some r, Some n, Some a, Some m) \<Rightarrow>
          if list_all (\<lambda>k. k \<in> set fieldnames) (map fst d)
          then Some \<lparr>roll_number = r, name = n, age = a, marks = m\<rparr>
          else None
      | _ \<Rightarrow> None)"

text \<open>
  \<^verbatim>\<open>list(csv.DictReader(file))\<close>: the first row is the header, empty rows are
  skipped, a later key of the zip overrides an earlier equal one. A row shorter or
  longer than the header gets a \<^verbatim>\<open>None\<close> value or a \<^verbatim>\<open>None\<close> key and is not a
  student dict either.
\<close>

definition row_student :: "string list \<Rightarrow> string list \<Rightarrow> student option" where
  "row_student header row =
     (if length row = length header then student_of_dict (rev (zip header row)) else None)"

fun dict_reader :: "string list list \<Rightarrow> student list option" where
  "dict_reader [] = Some []"
| "dict_reader (header # rows) = those (map (row_student header) (filter (\<lambda>r. r \<noteq> []) rows))"




text \<open>
  \<^verbatim>\<open>save_data\<close>: the file is opened for writing, which empties it; the header and
  the rows are written only when the list is not empty.
\<close>

definition save_body :: "store \<Rightarrow> exn + store" where
  "save_body st =
     (if \<not> writable st then Inl OSError
      else Inr (st\<lparr>disk := Csv (if students st \<noteq> []
                                 then fieldnames # map dict_to_list (students st)
                                 else [])\<rparr>))"

definition save_data :: "store \<Rightarrow> save_msg \<times> store" where
  "save_data st =
     (case save_body st of
        Inr st' \<Rightarrow> (Saved, st')
      | Inl e \<Rightarrow> (ErrorSaving e, st))"

text \<open>
  The GUI class has its own copies of both methods (student_gui.py). They report
  through \<^verbatim>\<open>self.update_status\<close>, inside the \<^verbatim>\<open>try\<close>, which reads
  \<^verbatim>\<open>self.status_bar\<close>: \<open>status_bar\<close> tells whether that attribute exists yet.
  The GUI's \<^verbatim>\<open>load_data\<close> is called once, by \<^verbatim>\<open>__init__\<close>, before
  \<^verbatim>\<open>create_widgets\<close> makes the status bar, so there the report of a load that went
  well raises \<^verbatim>\<open>AttributeError\<close> and the handler runs. The GUI's \<^verbatim>\<open>save_data\<close>
  is only called once the widgets exist.
\<close>

definition gui_load_body :: "bool \<Rightarrow> store \<Rightarrow> (exn + load_msg \<times> store) option" where
  "gui_load_body status_bar st =
     (case disk st of
        Absent \<Rightarrow> if status_bar then Some (Inr (NoDataFile, st)) else Some (Inl AttributeError)
      | Unreadable e \<Rightarrow> Some (Inl e)
      | Csv rows \<Rightarrow>
          if over_limit rows then Some (Inl CsvError)
          else (case dict_reader rows of
                  None \<Rightarrow> None
                | Some sts \<Rightarrow>
                    if status_bar then Some (Inr (Loaded (length sts), st\<lparr>students := sts\<rparr>))
                    else Some (Inl AttributeError)))"

definition gui_load_data :: "bool \<Rightarrow> store \<Rightarrow> (exn + load_msg \<times> store) option" where
  "gui_load_data status_bar st =
     (case gui_load_body status_bar st of
        None \<Rightarrow> None
      | Some (Inl e) \<Rightarrow> Some (Inr (ErrorLoading e, st\<lparr>students := []\<rparr>))
      | Some (Inr r) \<Rightarrow> Some (Inr r))"

text \<open>\<^verbatim>\<open>StudentGUI.__init__\<close>: an empty list, then \<^verbatim>\<open>load_data\<close>, then the widgets.\<close>

definition gui_init :: "csv_file \<Rightarrow> bool \<Rightarrow> (exn + load_msg \<times> store) option" where
  "gui_init f w = gui_load_data False \<lparr>students = [], disk = f, writable = w\<rparr>"

definition gui_save_data :: "store \<Rightarrow> save_msg \<times> store" where
  "gui_save_data st =
     (case save_body st of
        Inr st' \<Rightarrow> (Saved, st')
      | Inl e \<Rightarrow> (ErrorSaving e, st))"

section \<open>The command-line operations (student_management_system.py)\<close>

text \<open>
  Float arithmetic of \<^verbatim>\<open>display_statistics\<close>. Finite values are added and divided
  as real numbers: the rounding of binary64 is not modelled, so a finite result is the
  code's whenever the exact one is representable (as the sums of integer marks are).
  \<^verbatim>\<open>max\<close> keeps its first argument unless a later one is \<^verbatim>\<open>>\<close> it,
  \<^verbatim>\<open>min\<close> unless a later one is \<^verbatim>\<open><\<close> it; both raise \<^verbatim>\<open>ValueError\<close> on
  the empty list.
\<close>

fun flt_add :: "py_float \<Rightarrow> py_float \<Rightarrow> py_float" where
  "flt_add (Finite x) (Finite y) = Finite (x + y)"
| "flt_add NaN b = NaN"
| "flt_add a NaN = NaN"
| "flt_add PosInf NegInf = NaN"
| "flt_add NegInf PosInf = NaN"
| "flt_add PosInf b = PosInf"
| "flt_add a PosInf = PosInf"
| "flt_add NegInf b = NegInf"
| "flt_add a NegInf = NegInf"

fun flt_div_nat :: "py_float \<Rightarrow> nat \<Rightarrow> py_float" where
  "flt_div_nat (Finite x) n = Finite (x / of_nat n)"
| "flt_div_nat a n = a"

definition py_sum :: "py_float list \<Rightarrow> py_float" where
  "py_sum xs = foldl flt_add (Finite 0) xs"

fun py_max :: "py_float list \<Rightarrow> py_float option" where
  "py_max [] = None"
| "py_max (x # xs) = Some (foldl (\<lambda>m i. if flt_less m i then i else m) x xs)"

fun py_min :: "py_float list \<Rightarrow> py_float option" where
  "py_min [] = None"
| "py_min (x # xs) = Some (foldl (\<lambda>m i. if flt_less i m then i else m) x xs)"

record stats =
  total_students :: nat
  avg_marks :: py_float
  highest_marks :: py_float
  lowest_marks :: py_float
  grades :: "(string \<times> nat) list"

text \<open>
  Standard input is the list of the lines still to be read: \<^verbatim>\<open>input()\<close> takes the
  head, and raises \<^verbatim>\<open>EOFError\<close> on the empty list. An operation returns what it
  reported, the store it leaves and the lines it did not read. The store is returned
  with an exception too, since a record changed in place before the exception stays
  changed. The prompts and the error lines of the loops that ask again are not recorded.
\<close>

datatype outcome =
    Raised exn
  | NoRecords
  | RollEmpty
  | NotFound string
  | Added string save_msg
  | Updated save_msg
  | NoChanges
  | Deleted string save_msg
  | Cancelled
  | TermEmpty
  | Found "student list"
  | NoneFound
  | Statistics stats

text \<open>The four input loops of \<^verbatim>\<open>add_student\<close>; \<open>None\<close> is \<^verbatim>\<open>EOFError\<close>.\<close>

fun read_roll_number :: "builtins \<Rightarrow> student list \<Rightarrow> string list \<Rightarrow> (string \<times> string list) option" where
  "read_roll_number B sts [] = None"
| "read_roll_number B sts (l # ins) =
     (let r = strip B l in
      if r = [] then read_roll_number B sts ins
      else if \<not> validate_roll_number sts r then read_roll_number B sts ins
      else Some (r, ins))"

fun read_name :: "builtins \<Rightarrow> string list \<Rightarrow> (string \<times> string list) option" where
  "read_name B [] = None"
| "read_name B (l # ins) =
     (let n = strip B l in
      if \<not> validate_name B n then read_name B ins else Some (n, ins))"

fun read_age :: "builtins \<Rightarrow> string list \<Rightarrow> (int \<times> string list) option" where
  "read_age B [] = None"
| "read_age B (l # ins) =
     (case validate_age B (strip B l) of
        None \<Rightarrow> read_age B ins
      | Some a \<Rightarrow> Some (a, ins))"

fun read_marks :: "builtins \<Rightarrow> string list \<Rightarrow> (py_float \<times> string list) option" where
  "read_marks B [] = None"
| "read_marks B (l # ins) =
     (case validate_marks B (strip B l) of
        None \<Rightarrow> read_marks B ins
      | Some m \<Rightarrow> Some (m, ins))"

definition add_student :: "builtins \<Rightarrow> store \<Rightarrow> string list \<Rightarrow> outcome \<times> store \<times> string list" where
  "add_student B st ins =
     (case read_roll_number B (students st) ins of
        None \<Rightarrow> (Raised EOFError, st, [])
      | Some (r, ins1) \<Rightarrow>
     (case read_name B ins1 of
        None \<Rightarrow> (Raised EOFError, st, [])
      | Some (n, ins2) \<Rightarrow>
     (case read_age B ins2 of
        None \<Rightarrow> (Raised EOFError, st, [])
      | Some (a, ins3) \<Rightarrow>
     (case read_marks B ins3 of
        None \<Rightarrow> (Raised EOFError, st, [])
      | Some (m, ins4) \<Rightarrow>
          (let s = \<lparr>roll_number = r, name = title B n, age = str_int a, marks = str_float B m\<rparr>;
               (msg, st') = save_data (st\<lparr>students := students st @ [s]\<rparr>)
           in (Added n msg, st', ins4))))))"

text \<open>
  A menu loop: lines are read until the stripped line is one of the options.
  \<^verbatim>\<open>x in s\<close> on strings is the substring test. Of \<^verbatim>\<open>search_student\<close> the
  search is modelled, not the printing of the table of the records found.
\<close>

fun read_choice :: "builtins \<Rightarrow> string list \<Rightarrow> string list \<Rightarrow> (string \<times> string list) option" where
  "read_choice B opts [] = None"
| "read_choice B opts (l # ins) =
     (if strip B l \<in> set opts then Some (strip B l, ins) else read_choice B opts ins)"

fun starts_with :: "string \<Rightarrow> string \<Rightarrow> bool" where
  "starts_with s [] = True"
| "starts_with [] (p # ps) = False"
| "starts_with (c # cs) (p # ps) = (c = p \<and> starts_with cs ps)"

fun str_in :: "string \<Rightarrow> string \<Rightarrow> bool" where
  "str_in x [] = (x = [])"
| "str_in x (c # cs) = (starts_with (c # cs) x \<or> str_in x cs)"

definition search_student :: "builtins \<Rightarrow> store \<Rightarrow> string list \<Rightarrow> outcome \<times> store \<times> string list" where
  "search_student B st ins =
     (if students st = [] then (NoRecords, st, ins)
      else
     (case read_choice B [''1'', ''2''] ins of
        None \<Rightarrow> (Raised EOFError, st, [])
      | Some (choice, ins1) \<Rightarrow>
     (case ins1 of
        [] \<Rightarrow> (Raised EOFError, st, [])
      | l # ins2 \<Rightarrow>
          (let search_term = strip B l in
           if search_term = [] then (TermEmpty, st, ins2)
           else
             (let found_students =
                (if choice = ''1''
                 then filter (\<lambda>s. lower B (roll_number s) = lower B search_term) (students st)
                 else filter (\<lambda>s. str_in (lower B search_term) (lower B (name s))) (students st))
              in (if found_students \<noteq> [] then Found found_students else NoneFound, st, ins2))))))"

text \<open>
  The search loop of \<^verbatim>\<open>update_student\<close> and \<^verbatim>\<open>delete_student\<close>: the index of
  the first record whose roll number \<^verbatim>\<open>==\<close> the argument.
\<close>

fun find_student :: "student list \<Rightarrow> string \<Rightarrow> nat option" where
  "find_student [] r = None"
| "find_student (s # sts) r =
     (if roll_number s = r then Some 0 else map_option Suc (find_student sts r))"

text \<open>
  The three field loops of \<^verbatim>\<open>update_student\<close>. Each returns the new value of the
  field, or \<open>None\<close> for the blank line that keeps the current value (age and marks
  only; the name loop asks again on a blank line), and the lines left. The outer
  \<open>None\<close> is \<^verbatim>\<open>EOFError\<close>.
\<close>

fun update_name_loop :: "builtins \<Rightarrow> string list \<Rightarrow> (string \<times> string list) option" where
  "update_name_loop B [] = None"
| "update_name_loop B (l # ins) =
     (let new_name = strip B l in
      if new_name = [] then update_name_loop B ins
      else if \<not> validate_name B new_name then update_name_loop B ins
      else Some (title B new_name, ins))"

fun update_age_loop :: "builtins \<Rightarrow> string list \<Rightarrow> (string option \<times> string list) option" where
  "update_age_loop B [] = None"
| "update_age_loop B (l # ins) =
     (let age_str = strip B l in
      if age_str = [] then Some (None, ins)
      else (case validate_age B age_str of
              None \<Rightarrow> update_age_loop B ins
            | Some a \<Rightarrow> Some (Some (str_int a), ins)))"

fun update_marks_loop :: "builtins \<Rightarrow> string list \<Rightarrow> (string option \<times> string list) option" where
  "update_marks_loop B [] = None"
| "update_marks_loop B (l # ins) =
     (let marks_str = strip B l in
      if marks_str = [] then Some (None, ins)
      else (case validate_marks B marks_str of
              None \<Rightarrow> update_marks_loop B ins
            | Some m \<Rightarrow> Some (Some (str_float B m), ins)))"

text \<open>
  The three blocks after the menu of \<^verbatim>\<open>update_student\<close>. Each takes and returns
  the exception raised so far (if any), the store, the flag \<^verbatim>\<open>updated\<close> and the
  lines left; \<^verbatim>\<open>current_student\<close> is the record at \<open>i\<close>, changed in place.
\<close>

type_synonym update_state = "exn option \<times> store \<times> bool \<times> string list"

definition update_name_block :: "builtins \<Rightarrow> nat \<Rightarrow> string \<Rightarrow> update_state \<Rightarrow> update_state" where
  "update_name_block B i choice u =
     (case u of (x, st, updated, ins) \<Rightarrow>
        if x \<noteq> None \<or> choice \<notin> set [''1'', ''4''] then u
        else (case update_name_loop B ins of
                None \<Rightarrow> (Some EOFError, st, updated, [])
              | Some (n, ins') \<Rightarrow>
                  (None, st\<lparr>students := (students st)[i := (students st ! i)\<lparr>name := n\<rparr>]\<rparr>, True, ins')))"

definition update_age_block :: "builtins \<Rightarrow> nat \<Rightarrow> string \<Rightarrow> update_state \<Rightarrow> update_state" where
  "update_age_block B i choice u =
     (case u of (x, st, updated, ins) \<Rightarrow>
        if x \<noteq> None \<or> choice \<notin> set [''2'', ''4''] then u
        else (case update_age_loop B ins of
                None \<Rightarrow> (Some EOFError, st, updated, [])
              | Some (None, ins') \<Rightarrow> (None, st, updated, ins')
              | Some (Some a, ins') \<Rightarrow>
                  (None, st\<lparr>students := (students st)[i := (students st ! i)\<lparr>age := a\<rparr>]\<rparr>, True, ins')))"

definition update_marks_block :: "builtins \<Rightarrow> nat \<Rightarrow> string \<Rightarrow> update_state \<Rightarrow> update_state" where
  "update_marks_block B i choice u =
     (case u of (x, st, updated, ins) \<Rightarrow>
        if x \<noteq> None \<or> choice \<notin> set [''3'', ''4''] then u
        else (case update_marks_loop B ins of
                None \<Rightarrow> (Some EOFError, st, updated, [])
              | Some (None, ins') \<Rightarrow> (None, st, updated, ins')
              | Some (Some m, ins') \<Rightarrow>
                  (None, st\<lparr>students := (students st)[i := (students st ! i)\<lparr>marks := m\<rparr>]\<rparr>, True, ins')))"

definition update_student :: "builtins \<Rightarrow> store \<Rightarrow> string list \<Rightarrow> outcome \<times> store \<times> string list" where
  "update_student B st ins =
     (if students st = [] then (NoRecords, st, ins)
      else
     (case ins of
        [] \<Rightarrow> (Raised EOFError, st, [])
      | l # ins1 \<Rightarrow>
          (let r = strip B l in
           if r = [] then (RollEmpty, st, ins1)
           else
          (case find_student (students st) r of
             None \<Rightarrow> (NotFound r, st, ins1)
           | Some i \<Rightarrow>
          (case read_choice B [''1'', ''2'', ''3'', ''4''] ins1 of
             None \<Rightarrow> (Raised EOFError, st, [])
           | Some (choice, ins2) \<Rightarrow>
          (case update_marks_block B i choice
                  (update_age_block B i choice
                     (update_name_block B i choice (None, st, False, ins2))) of
             (Some e, st', updated, ins') \<Rightarrow> (Raised e, st', ins')
           | (None, st', updated, ins') \<Rightarrow>
               if updated
               then (let (msg, st'') = save_data st' in (Updated msg, st'', ins'))
               else (NoChanges, st', ins')))))))"

text \<open>The confirmation loop of \<^verbatim>\<open>delete_student\<close>; \<open>None\<close> is \<^verbatim>\<open>EOFError\<close>.\<close>

fun read_confirm :: "builtins \<Rightarrow> string list \<Rightarrow> (bool \<times> string list) option" where
  "read_confirm B [] = None"
| "read_confirm B (l # ins) =
     (let confirm = lower B (strip B l) in
      if confirm \<in> set [''y'', ''yes''] then Some (True, ins)
      else if confirm \<in> set [''n'', ''no''] then Some (False, ins)
      else read_confirm B ins)"

definition delete_student :: "builtins \<Rightarrow> store \<Rightarrow> string list \<Rightarrow> outcome \<times> store \<times> string list" where
  "delete_student B st ins =
     (if students st = [] then (NoRecords, st, ins)
      else
     (case ins of
        [] \<Rightarrow> (Raised EOFError, st, [])
      | l # ins1 \<Rightarrow>
          (let r = strip B l in
           if r = [] then (RollEmpty, st, ins1)
           else
          (case find_student (students st) r of
             None \<Rightarrow> (NotFound r, st, ins1)
           | Some i \<Rightarrow>
          (case read_confirm B ins1 of
             None \<Rightarrow> (Raised EOFError, st, [])
           | Some (False, ins2) \<Rightarrow> (Cancelled, st, ins2)
           | Some (True, ins2) \<Rightarrow>
               (let student_to_delete = students st ! i;
                    (msg, st') = save_data (st\<lparr>students := take i (students st) @ drop (Suc i) (students st)\<rparr>)
                in (Deleted (name student_to_delete) msg, st', ins2)))))))"

text \<open>
  \<^verbatim>\<open>display_statistics\<close>: the computed values are returned instead of printed.
  \<^verbatim>\<open>float(student['marks'])\<close> raises \<^verbatim>\<open>ValueError\<close> on a stored string that is
  no float literal. \<open>grades\<close> is the dict of counts in its insertion order.
\<close>

definition bump :: "string \<Rightarrow> (string \<times> nat) list \<Rightarrow> (string \<times> nat) list" where
  "bump g gs = map (\<lambda>(k, v). if k = g then (k, v + 1) else (k, v)) gs"

definition grade_distribution :: "py_float list \<Rightarrow> (string \<times> nat) list" where
  "grade_distribution marks_list =
     foldl (\<lambda>gs m. bump (calculate_grade m) gs)
       [(''A+'', 0), (''A'', 0), (''B+'', 0), (''B'', 0), (''C'', 0), (''D'', 0), (''F'', 0)]
       marks_list"

definition display_statistics :: "builtins \<Rightarrow> store \<Rightarrow> outcome" where
  "display_statistics B st =
     (if students st = [] then NoRecords
      else
     (case those (map (\<lambda>s. float_of B (marks s)) (students st)) of
        None \<Rightarrow> Raised ValueError
      | Some marks_list \<Rightarrow>
     (case (py_max marks_list, py_min marks_list) of
        (Some hi, Some lo) \<Rightarrow>
          Statistics \<lparr>total_students = length (students st),
                      avg_marks = flt_div_nat (py_sum marks_list) (length (students st)),
                      highest_marks = hi,
                      lowest_marks = lo,
                      grades = grade_distribution marks_list\<rparr>
      | _ \<Rightarrow> Raised ValueError)))"

section \<open>The GUI operations (student_gui.py)\<close>

text \<open>
  \<^verbatim>\<open>StudentDialog.save_student\<close>: the four entries are read and validated; the
  result dict is built only when every check has passed, else \<^verbatim>\<open>self.result\<close> stays
  \<^verbatim>\<open>None\<close> and an error box is shown.
\<close>

datatype form_error =
    RollNumberEmpty | NameTooShort | InvalidAge | AgeOutOfRange | InvalidMarks | MarksOutOfRange

definition save_student :: "builtins \<Rightarrow> student \<Rightarrow> form_error + student" where
  "save_student B entries =
     (let r = strip B (roll_number entries);
          n = strip B (name entries);
          age_str = strip B (age entries);
          marks_str = strip B (marks entries)
      in if r = [] then Inl RollNumberEmpty
         else if n = [] \<or> length n < 2 then Inl NameTooShort
         else (case int_of B age_str of
                 None \<Rightarrow> Inl InvalidAge
               | Some a \<Rightarrow>
                   if a < 1 \<or> a > 150 then Inl AgeOutOfRange
                   else (case float_of B marks_str of
                           None \<Rightarrow> Inl InvalidMarks
                         | Some m \<Rightarrow>
                             if flt_less m (Finite 0) \<or> flt_less (Finite 100) m then Inl MarksOutOfRange
                             else Inr \<lparr>roll_number = r, name = title B n,
                                       age = str_int a, marks = str_float B m\<rparr>)))"

text \<open>
  The constructor of \<^verbatim>\<open>StudentDialog\<close> sets \<^verbatim>\<open>self.result = None\<close>, builds the
  form and returns: it does not wait for the window, and \<^verbatim>\<open>save_student\<close> runs
  only later, as the callback of the Save button. \<open>new_dialog_result\<close> is the value
  of \<^verbatim>\<open>dialog.result\<close> when the constructor has returned, which is what
  \<^verbatim>\<open>add_student_dialog\<close> and \<^verbatim>\<open>edit_student_dialog\<close> read on their next line.
\<close>

definition new_dialog_result :: "student option" where
  "new_dialog_result = None"

datatype gui_outcome =
    NoSelection
  | NoResult
  | RollNumberExists
  | StudentNotFound
  | NotConfirmed
  | GuiAdded string save_msg
  | GuiUpdated string save_msg
  | GuiDeleted string save_msg

text \<open>
  \<^verbatim>\<open>add_student_dialog\<close>, and \<^verbatim>\<open>edit_student_dialog\<close> as a function of the roll
  number of the selected table row. \<^verbatim>\<open>student.update(dialog.result)\<close> would
  overwrite the four keys of the first record with that roll number.
\<close>

definition add_student_dialog :: "store \<Rightarrow> gui_outcome \<times> store" where
  "add_student_dialog st =
     (case new_dialog_result of
        None \<Rightarrow> (NoResult, st)
      | Some d \<Rightarrow>
          if list_ex (\<lambda>s. roll_number s = roll_number d) (students st) then (RollNumberExists, st)
          else (let (msg, st') = gui_save_data (st\<lparr>students := students st @ [d]\<rparr>)
                in (GuiAdded (name d) msg, st')))"

definition edit_student_dialog :: "string option \<Rightarrow> store \<Rightarrow> gui_outcome \<times> store" where
  "edit_student_dialog selection st =
     (case selection of
        None \<Rightarrow> (NoSelection, st)
      | Some r \<Rightarrow>
     (case find_student (students st) r of
        None \<Rightarrow> (StudentNotFound, st)
      | Some i \<Rightarrow>
     (case new_dialog_result of
        None \<Rightarrow> (NoResult, st)
      | Some d \<Rightarrow>
          (let (msg, st') = gui_save_data (st\<lparr>students := (students st)[i := d]\<rparr>)
           in (GuiUpdated (name d) msg, st')))))"

text \<open>
  The GUI's \<^verbatim>\<open>delete_student\<close>: \<open>selection\<close> is the roll number and the name of
  the selected row, \<open>confirmed\<close> the answer to the yes/no box.
\<close>

definition gui_delete_student :: "(string \<times> string) option \<Rightarrow> bool \<Rightarrow> store \<Rightarrow> gui_outcome \<times> store" where
  "gui_delete_student selection confirmed st =
     (case selection of
        None \<Rightarrow> (NoSelection, st)
      | Some (r, n) \<Rightarrow>
          if \<not> confirmed then (NotConfirmed, st)
          else (let (msg, st') = gui_save_data (st\<lparr>students := filter (\<lambda>s. roll_number s \<noteq> r) (students st)\<rparr>)
                in (GuiDeleted n msg, st')))"

section \<open>An ASCII instance of the built-ins\<close>

text \<open>
  For evaluating the model on concrete inputs: the built-ins on ASCII strings.
  \<open>ascii_int\<close> reads an optional sign and decimal digits, \<open>dec_float\<close> reads an
  optional sign, digits and an optional fraction, or \<^verbatim>\<open>nan\<close> or \<^verbatim>\<open>inf\<close>;
  \<open>dec_str\<close> writes the decimal expansion with at least one and at most seventeen
  fractional digits. They agree with Python on such literals of at most fifteen
  significant digits whose value is zero or lies between 0.0001 and 1e16; the other
  literals Python accepts (underscores, exponents, signed or capitalised \<^verbatim>\<open>nan\<close> and
  \<^verbatim>\<open>inf\<close>, digits outside ASCII) are rejected here.
\<close>

definition is_space :: "char \<Rightarrow> bool" where
  "is_space c = (c \<in> set [CHR '' '', CHR 0x09, CHR 0x0A, CHR 0x0B, CHR 0x0C, CHR 0x0D,
                           CHR 0x1C, CHR 0x1D, CHR 0x1E, CHR 0x1F])"

definition ascii_strip :: "string \<Rightarrow> string" where
  "ascii_strip s = rev (dropWhile is_space (rev (dropWhile is_space s)))"

definition is_upper :: "char \<Rightarrow> bool" where
  "is_upper c = (65 \<le> (of_char c :: nat) \<and> (of_char c :: nat) \<le> 90)"

definition is_lower :: "char \<Rightarrow> bool" where
  "is_lower c = (97 \<le> (of_char c :: nat) \<and> (of_char c :: nat) \<le> 122)"

definition to_lower :: "char \<Rightarrow> char" where
  "to_lower c = (if is_upper c then char_of ((of_char c :: nat) + 32) else c)"

definition to_upper :: "char \<Rightarrow> char" where
  "to_upper c = (if is_lower c then char_of ((of_char c :: nat) - 32) else c)"

definition ascii_lower :: "string \<Rightarrow> string" where
  "ascii_lower s = map to_lower s"

fun title_from :: "bool \<Rightarrow> string \<Rightarrow> string" where
  "title_from prev [] = []"
| "title_from prev (c # cs) =
     (if is_upper c \<or> is_lower c
      then (if prev then to_lower c else to_upper c) # title_from True cs
      else c # title_from False cs)"

definition ascii_title :: "string \<Rightarrow> string" where
  "ascii_title s = title_from False s"

definition is_digit :: "char \<Rightarrow> bool" where
  "is_digit c = (48 \<le> (of_char c :: nat) \<and> (of_char c :: nat) \<le> 57)"

definition digits_value :: "string \<Rightarrow> nat" where
  "digits_value ds = foldl (\<lambda>n c. 10 * n + ((of_char c :: nat) - 48)) 0 ds"

definition unsigned_int :: "string \<Rightarrow> nat option" where
  "unsigned_int ds = (if ds \<noteq> [] \<and> list_all is_digit ds then Some (digits_value ds) else None)"

definition ascii_int :: "string \<Rightarrow> int option" where
  "ascii_int s =
     (case ascii_strip s of
        [] \<Rightarrow> None
      | c # cs \<Rightarrow>
          if c = CHR ''-'' then map_option (\<lambda>n. - int n) (unsigned_int cs)
          else if c = CHR ''+'' then map_option int (unsigned_int cs)
          else map_option int (unsigned_int (c # cs)))"

definition unsigned_dec :: "string \<Rightarrow> real option" where
  "unsigned_dec s =
     (let ip = takeWhile (\<lambda>c. c \<noteq> CHR ''.'') s;
          fp = drop (Suc (length ip)) s
      in if list_all is_digit ip \<and> list_all is_digit fp \<and> (ip \<noteq> [] \<or> fp \<noteq> [])
         then Some (of_nat (digits_value (ip @ fp)) / 10 ^ length fp)
         else None)"

definition dec_float :: "string \<Rightarrow> py_float option" where
  "dec_float s =
     (case ascii_strip s of
        [] \<Rightarrow> None
      | c # cs \<Rightarrow>
          if c # cs = ''nan'' then Some NaN
          else if c # cs = ''inf'' then Some PosInf
          else if c = CHR ''-'' then map_option (\<lambda>x. Finite (- x)) (unsigned_dec cs)
          else if c = CHR ''+'' then map_option Finite (unsigned_dec cs)
          else map_option Finite (unsigned_dec (c # cs)))"

fun frac_digits :: "nat \<Rightarrow> real \<Rightarrow> string" where
  "frac_digits 0 x = []"
| "frac_digits (Suc k) x =
     (let d = nat \<lfloor>x * 10\<rfloor>
      in digit_char d # (if x * 10 = of_nat d then [] else frac_digits k (x * 10 - of_nat d)))"

definition dec_str :: "py_float \<Rightarrow> string" where
  "dec_str f =
     (case f of
        NaN \<Rightarrow> ''nan''
      | PosInf \<Rightarrow> ''inf''
      | NegInf \<Rightarrow> ''-inf''
      | Finite x \<Rightarrow>
          (if x < 0 then ''-'' else []) @ str_nat (nat \<lfloor>\<bar>x\<bar>\<rfloor>) @ ''.'' @
          frac_digits 17 (\<bar>x\<bar> - of_int \<lfloor>\<bar>x\<bar>\<rfloor>))"

definition ascii_builtins :: builtins where
  "ascii_builtins =
     \<lparr>strip = ascii_strip, lower = ascii_lower, title = ascii_title,
      int_of = ascii_int, float_of = dec_float, str_float = dec_str\<rparr>"

section \<open>What an update may write\<close>

text \<open>
  \<open>valid_writes B ins s s'\<close>: the record \<open>s'\<close> has the roll number of \<open>s\<close>, and
  each of its other fields is the field of \<open>s\<close> or what the code stores for a line of
  \<open>ins\<close> that passes the field's validator: the title-cased stripped line for the
  name, \<^verbatim>\<open>str\<close> of the validated value for the age and the marks.
\<close>

definition valid_writes :: "builtins \<Rightarrow> string list \<Rightarrow> student \<Rightarrow> student \<Rightarrow> bool" where
  "valid_writes B ins s s' =
     (roll_number s' = roll_number s
      \<and> (name s' = name s
           \<or> list_ex (\<lambda>l. validate_name B (strip B l) \<and> name s' = title B (strip B l)) ins)
      \<and> (age s' = age s
           \<or> list_ex (\<lambda>l. case validate_age B (strip B l) of
                              None \<Rightarrow> False
                            | Some a \<Rightarrow> age s' = str_int a) ins)
      \<and> (marks s' = marks s
           \<or> list_ex (\<lambda>l. case validate_marks B (strip B l) of
                              None \<Rightarrow> False
                            | Some m \<Rightarrow> marks s' = str_float B m) ins))"

text \<open>The four fields of a record are within the field size limit.\<close>

definition fields_within_limit :: "student \<Rightarrow> bool" where
  "fields_within_limit s =
     (length (roll_number s) \<le> field_size_limit \<and> length (name s) \<le> field_size_limit
      \<and> length (age s) \<le> field_size_limit \<and> length (marks s) \<le> field_size_limit)"

section \<open>The sample data of demo_student_system.py\<close>

definition demo_students :: "student list" where
  "demo_students =
     [\<lparr>roll_number = ''CS001'', name = ''Alice Johnson'', age = ''20'', marks = ''95''\<rparr>,
      \<lparr>roll_number = ''CS002'', name = ''Bob Smith'', age = ''19'', marks = ''87''\<rparr>,
      \<lparr>roll_number = ''CS003'', name = ''Charlie Brown'', age = ''21'', marks = ''78''\<rparr>,
      \<lparr>roll_number = ''CS004'', name = ''Diana Prince'', age = ''20'', marks = ''92''\<rparr>,
      \<lparr>roll_number = ''CS005'', name = ''Eve Wilson'', age = ''19'', marks = ''69''\<rparr>]"

definition demo_store :: store where
  "demo_store = \<lparr>students = demo_students, disk = Absent, writable = True\<rparr>"

definition one_student :: store where
  "one_student =
     \<lparr>students = [\<lparr>roll_number = ''CS001'', name = ''Alice Johnson'', age = ''20'', marks = ''95''\<rparr>],
      disk = Absent, writable = True\<rparr>"

text \<open>
  A store with one record whose name, an A followed by 131072 letters a, is one
  character longer than the field size limit.
\<close>

definition long_name :: string where
  "long_name = CHR ''A'' # replicate 131072 (CHR ''a'')"

definition long_store :: store where
  "long_store =
     \<lparr>students = [\<lparr>roll_number = ''CS001'', name = long_name, age = ''20'', marks = ''95.0''\<rparr>],
      disk = Absent, writable = True\<rparr>"

section \<open>Grading\<close>

text \<open>
  C4. The grade of a finite mark \<open>x\<close> is found by inclusive lower bounds tried from the
  highest: at least 90 gives A+, at least 80 gives A, at least 70 gives B+, at least 60
  gives B, at least 50 gives C, at least 40 gives D, anything lower gives F. The GUI's
  copy computes the same grade. At the boundaries, 90 gives A+, 89.999 gives A, 40 gives
  D and 39.999 gives F.
\<close>

theorem calculate_grade_thresholds:
  "calculate_grade (Finite x) =
     (if 90 \<le> x then ''A+'' else if 80 \<le> x then ''A'' else if 70 \<le> x then ''B+''
      else if 60 \<le> x then ''B'' else if 50 \<le> x then ''C'' else if 40 \<le> x then ''D''
      else ''F'')
   \<and> gui_calculate_grade m = calculate_grade m
   \<and> calculate_grade (Finite 90) = ''A+''
   \<and> calculate_grade (Finite 89.999) = ''A''
   \<and> calculate_grade (Finite 40) = ''D''
   \<and> calculate_grade (Finite 39.999) = ''F''"
  by (simp add: calculate_grade_def gui_calculate_grade_def flt_le_def)

section \<open>Statistics\<close>

lemma grade_distribution_demo:
  "grade_distribution [Finite 95, Finite 87, Finite 78, Finite 92, Finite 69] =
     [(''A+'', 2), (''A'', 1), (''B+'', 1), (''B'', 1), (''C'', 0), (''D'', 0), (''F'', 0)]"
  by (simp add: grade_distribution_def bump_def calculate_grade_def flt_le_def)

text \<open>
  C9. On the five records of the demo, whose marks are the strings 95, 87, 78, 92 and
  69, and for any \<^verbatim>\<open>float()\<close> that reads these five literals as the numbers they
  write, \<^verbatim>\<open>display_statistics\<close> computes 5 students, the average 84.2, the highest
  mark 95, the lowest 69, and the grade counts A+ 2, A 1, B+ 1, B 1 and 0 for C, D and
  F. On a store with no records it reports that there are none and computes nothing.
  The sum 421 is exact in binary64; the average is the exact quotient 421 / 5, of which
  the code holds the nearest binary64 value, the one the literal \<^verbatim>\<open>84.2\<close> denotes.
\<close>

theorem statistics_of_demo:
  assumes "float_of B ''95'' = Some (Finite 95)" "float_of B ''87'' = Some (Finite 87)"
    "float_of B ''78'' = Some (Finite 78)" "float_of B ''92'' = Some (Finite 92)"
    "float_of B ''69'' = Some (Finite 69)"
  shows "display_statistics B \<lparr>students = demo_students, disk = f, writable = w\<rparr> =
      Statistics \<lparr>total_students = 5, avg_marks = Finite 84.2,
                  highest_marks = Finite 95, lowest_marks = Finite 69,
                  grades = [(''A+'', 2), (''A'', 1), (''B+'', 1), (''B'', 1),
                            (''C'', 0), (''D'', 0), (''F'', 0)]\<rparr>
    \<and> display_statistics B \<lparr>students = [], disk = f, writable = w\<rparr> = NoRecords"
  using assms
  by (simp add: display_statistics_def demo_students_def py_sum_def grade_distribution_demo)

theorem statistics_of_demo_witness:
  "display_statistics ascii_builtins demo_store =
      Statistics \<lparr>total_students = 5, avg_marks = Finite 84.2,
                  highest_marks = Finite 95, lowest_marks = Finite 69,
                  grades = [(''A+'', 2), (''A'', 1), (''B+'', 1), (''B'', 1),
                            (''C'', 0), (''D'', 0), (''F'', 0)]\<rparr>
   \<and> display_statistics ascii_builtins \<lparr>students = [], disk = Absent, writable = True\<rparr> = NoRecords"
proof -
  have "float_of ascii_builtins ''95'' = Some (Finite 95)"
    "float_of ascii_builtins ''87'' = Some (Finite 87)"
    "float_of ascii_builtins ''78'' = Some (Finite 78)"
    "float_of ascii_builtins ''92'' = Some (Finite 92)"
    "float_of ascii_builtins ''69'' = Some (Finite 69)"
    by code_simp+
  from statistics_of_demo [OF this, of Absent True] show ?thesis
    by (simp add: demo_store_def)
qed

section \<open>Persistence\<close>


lemma save_data_students: "students (snd (save_data st)) = students st"
  by (simp add: save_data_def save_body_def)

lemma gui_save_data_eq: "gui_save_data st = save_data st"
  by (simp add: gui_save_data_def save_data_def)

lemma row_student_dict_to_list: "row_student fieldnames (dict_to_list s) = Some s"
  by (simp add: row_student_def student_of_dict_def fieldnames_def dict_to_list_def)

lemma dict_reader_written:
  "dict_reader (fieldnames # map dict_to_list sts) = Some sts"
proof -
  have "filter (\<lambda>r. r \<noteq> []) (map dict_to_list sts) = map dict_to_list sts"
    by (induction sts) (simp_all add: dict_to_list_def)
  moreover have "those (map (row_student fieldnames) (map dict_to_list sts)) = Some sts"
    by (induction sts) (simp_all add: row_student_dict_to_list)
  ultimately show ?thesis by simp
qed

text \<open>
  The file written for a list of records has a field over the limit exactly when
  some record has one: the four column names are short.
\<close>

lemma over_limit_written:
  "over_limit (fieldnames # map dict_to_list sts) \<longleftrightarrow> \<not> list_all fields_within_limit sts"
proof -
  have h: "\<not> list_ex (\<lambda>field. length field > field_size_limit) fieldnames"
    by (simp add: fieldnames_def field_size_limit_def)
  have r: "list_ex (\<lambda>field. length field > field_size_limit) (dict_to_list s) \<longleftrightarrow>
      \<not> fields_within_limit s" for s
    by (auto simp: dict_to_list_def fields_within_limit_def)
  show ?thesis
    using h by (induction sts) (simp_all add: over_limit_def r)
qed


text \<open>
  The store \<open>long_store\<close> is what the command line's add makes of an empty store
  when the name typed is 131073 letters a: every validator accepts its line, and
  \<^verbatim>\<open>title()\<close> turns the first letter into a capital.
\<close>

lemma title_from_True_lower:
  "title_from True (replicate n (CHR ''a'')) = replicate n (CHR ''a'')"
  by (induction n) (simp_all add: is_upper_def is_lower_def to_lower_def)

lemma ascii_title_long: "ascii_title (CHR ''a'' # replicate 131072 (CHR ''a'')) = long_name"
proof -
  have "to_upper (CHR ''a'') = CHR ''A''" by code_simp
  then show ?thesis
    by (simp add: ascii_title_def long_name_def title_from_True_lower is_lower_def)
qed

lemma long_store_from_add:
  "add_student ascii_builtins \<lparr>students = [], disk = Absent, writable = True\<rparr>
     [''CS001'', CHR ''a'' # replicate 131072 (CHR ''a''), ''20'', ''95''] =
   (Added (CHR ''a'' # replicate 131072 (CHR ''a'')) Saved,
    long_store\<lparr>disk := Csv [fieldnames, [''CS001'', long_name, ''20'', ''95.0'']]\<rparr>, [])"
proof -
  let ?B = ascii_builtins
  let ?n = "CHR ''a'' # replicate 131072 (CHR ''a'')"
  have sp: "\<not> is_space (CHR ''a'')"
    by (simp add: is_space_def)
  have sn: "strip ?B ?n = ?n"
    using sp by (simp add: ascii_builtins_def ascii_strip_def dropWhile_append3)
  have vn: "validate_name ?B ?n"
    by (simp add: validate_name_def sn)
  have tn: "title ?B ?n = long_name"
    by (simp add: ascii_builtins_def ascii_title_long)
  have r: "read_roll_number ?B [] (''CS001'' # ins) = Some (''CS001'', ins)" for ins
  proof -
    have "strip ?B ''CS001'' = ''CS001''" by code_simp
    then show ?thesis by (simp add: validate_roll_number_def)
  qed
  have a: "read_age ?B (''20'' # ins) = Some (20, ins)" for ins
  proof -
    have "validate_age ?B (strip ?B ''20'') = Some 20" by code_simp
    then show ?thesis by simp
  qed
  have m: "read_marks ?B (''95'' # ins) = Some (Finite 95, ins)" for ins
  proof -
    have "validate_marks ?B (strip ?B ''95'') = Some (Finite 95)" by code_simp
    then show ?thesis by simp
  qed
  have s20: "str_int 20 = ''20''" and s95: "str_float ?B (Finite 95) = ''95.0''"
    by code_simp+
  show ?thesis
    by (simp add: add_student_def r a m sn vn tn s20 s95 save_data_def save_body_def
        long_store_def dict_to_list_def del: read_roll_number.simps read_age.simps read_marks.simps)
qed




text \<open>
  The GUI starts in the handler of its \<^verbatim>\<open>load_data\<close> whatever the file is: on the
  file its own \<^verbatim>\<open>save_data\<close> wrote, the rows are read, the status report raises
  \<^verbatim>\<open>AttributeError\<close> (or the reader has raised before), and the list is emptied.
\<close>

lemma gui_init_ends_in_handler:
  "gui_init f w = None \<or>
   (\<exists>e. gui_init f w = Some (Inr (ErrorLoading e, \<lparr>students = [], disk = f, writable = w\<rparr>)))"
  by (simp add: gui_init_def gui_load_data_def gui_load_body_def
      split: csv_file.splits option.splits)

lemma gui_init_written_file:
  "gui_init (Csv (fieldnames # map dict_to_list sts)) w =
     Some (Inr (ErrorLoading (if list_all fields_within_limit sts then AttributeError else CsvError),
                \<lparr>students = [], disk = Csv (fieldnames # map dict_to_list sts), writable = w\<rparr>))"
  by (simp add: gui_init_def gui_load_data_def gui_load_body_def dict_reader_written
      over_limit_written del: dict_reader.simps)







section \<open>Roll numbers: adding, finding, updating, deleting\<close>


lemma find_student_None_iff:
  "find_student sts r = None \<longleftrightarrow> r \<notin> roll_number ` set sts"
  by (induction sts) auto

lemma find_student_Some_iff:
  "find_student sts r = Some i \<longleftrightarrow>
     i < length sts \<and> roll_number (sts ! i) = r \<and> (\<forall>j<i. roll_number (sts ! j) \<noteq> r)"
proof (induction sts arbitrary: i)
  case Nil
  then show ?case by simp
next
  case (Cons s sts)
  show ?case
  proof (cases "roll_number s = r")
    case True
    then show ?thesis by (cases i) auto
  next
    case False
    show ?thesis
    proof (cases i)
      case 0
      with False show ?thesis by simp
    next
      case (Suc k)
      have "(\<forall>j<Suc k. roll_number ((s # sts) ! j) \<noteq> r) \<longleftrightarrow> (\<forall>j<k. roll_number (sts ! j) \<noteq> r)"
        using False by (auto simp: less_Suc_eq_0_disj)
      with False Suc Cons.IH [of k] show ?thesis by auto
    qed
  qed
qed

text \<open>
  The two dialog methods of the GUI read \<^verbatim>\<open>dialog.result\<close> when it is still
  \<^verbatim>\<open>None\<close>, so they return without touching the store.
\<close>

lemma add_student_dialog_keeps_store: "add_student_dialog st = (NoResult, st)"
  by (simp add: add_student_dialog_def new_dialog_result_def)

lemma edit_student_dialog_keeps_store: "snd (edit_student_dialog sel st) = st"
  by (simp add: edit_student_dialog_def new_dialog_result_def split: option.splits)




lemma validate_age_Some:
  "int_of B s = Some a \<Longrightarrow> 1 \<le> a \<Longrightarrow> a \<le> 150 \<Longrightarrow> validate_age B s = Some a"
  by (simp add: validate_age_def)

lemma validate_marks_Some:
  "float_of B s = Some (Finite m) \<Longrightarrow> 0 \<le> m \<Longrightarrow> m \<le> 100 \<Longrightarrow>
     validate_marks B s = Some (Finite m)"
  by (simp add: validate_marks_def)

text \<open>The range check of \<^verbatim>\<open>validate_marks\<close> lets nan through: both comparisons are false.\<close>

lemma validate_marks_nan:
  "float_of B s = Some NaN \<Longrightarrow> validate_marks B s = Some NaN"
  by (simp add: validate_marks_def)

text \<open>
  C8. Let the four lines typed to the command line's add be valid: the stripped roll
  number is not empty and no record has it, the stripped name has at least two
  characters (\<^verbatim>\<open>validate_name\<close> strips the stripped line once more), the age reads
  as an integer from 1 to 150 and the marks read as a number from 0 to 100. Then add appends the record with the stripped roll number, the
  title-cased name, \<^verbatim>\<open>str\<close> of the integer age and \<^verbatim>\<open>str\<close> of the float marks,
  and saves. A search by roll number (menu choice 1) for the same line afterwards finds
  that record: the result is the earlier records whose roll number is equal to it when
  lower-cased, followed by the new record, and it is the new record alone when there
  is no such earlier record.
\<close>

theorem add_then_search_by_roll:
  assumes roll: "strip B l1 \<noteq> []" "validate_roll_number (students st) (strip B l1)"
      and nm: "2 \<le> length (strip B (strip B l2))"
      and ag: "int_of B (strip B l3) = Some a" "1 \<le> a" "a \<le> 150"
      and mk: "float_of B (strip B l4) = Some (Finite m)" "0 \<le> m" "m \<le> 100"
      and ch: "strip B c = ''1''"
      and new: "new = \<lparr>roll_number = strip B l1, name = title B (strip B l2),
                        age = str_int a, marks = str_float B (Finite m)\<rparr>"
      and st1: "st1 = st\<lparr>students := students st @ [new]\<rparr>"
  shows "add_student B st (l1 # l2 # l3 # l4 # ins) =
           (Added (strip B l2) (fst (save_data st1)), snd (save_data st1), ins)
    \<and> students (snd (save_data st1)) = students st @ [new]
    \<and> search_student B (snd (save_data st1)) (c # l1 # ins') =
        (Found (filter (\<lambda>s. lower B (roll_number s) = lower B (strip B l1)) (students st) @ [new]),
         snd (save_data st1), ins')
    \<and> ((\<forall>s \<in> set (students st). lower B (roll_number s) \<noteq> lower B (strip B l1)) \<longrightarrow>
        search_student B (snd (save_data st1)) (c # l1 # ins') =
          (Found [new], snd (save_data st1), ins'))"
proof -
  have vn: "validate_name B (strip B l2)"
    using nm by (auto simp: validate_name_def)
  have va: "validate_age B (strip B l3) = Some a"
    using ag by (rule validate_age_Some)
  have vm: "validate_marks B (strip B l4) = Some (Finite m)"
    using mk by (rule validate_marks_Some)
  have add: "add_student B st (l1 # l2 # l3 # l4 # ins) =
           (Added (strip B l2) (fst (save_data st1)), snd (save_data st1), ins)"
    using roll vn va vm by (simp add: add_student_def new st1 split_beta Let_def)
  have sts: "students (snd (save_data st1)) = students st @ [new]"
    by (simp add: save_data_students st1)
  have srch: "search_student B (snd (save_data st1)) (c # l1 # ins') =
        (Found (filter (\<lambda>s. lower B (roll_number s) = lower B (strip B l1)) (students st) @ [new]),
         snd (save_data st1), ins')"
    using roll(1) ch by (simp add: search_student_def sts Let_def) (simp add: new)
  have uniq: "(\<forall>s \<in> set (students st). lower B (roll_number s) \<noteq> lower B (strip B l1)) \<longrightarrow>
      filter (\<lambda>s. lower B (roll_number s) = lower B (strip B l1)) (students st) = []"
    by (simp add: filter_empty_conv)
  from add sts srch uniq show ?thesis by simp
qed

theorem add_then_search_by_roll_witness:
  "add_student ascii_builtins demo_store ['' CS006 '', ''frank miller'', ''22'', ''88.5''] =
     (Added ''frank miller'' Saved,
      \<lparr>students = demo_students @
         [\<lparr>roll_number = ''CS006'', name = ''Frank Miller'', age = ''22'', marks = ''88.5''\<rparr>],
       disk = Csv (fieldnames # map dict_to_list (demo_students @
         [\<lparr>roll_number = ''CS006'', name = ''Frank Miller'', age = ''22'', marks = ''88.5''\<rparr>])),
       writable = True\<rparr>, [])
   \<and> search_student ascii_builtins
        \<lparr>students = demo_students @
           [\<lparr>roll_number = ''CS006'', name = ''Frank Miller'', age = ''22'', marks = ''88.5''\<rparr>],
         disk = Csv (fieldnames # map dict_to_list (demo_students @
           [\<lparr>roll_number = ''CS006'', name = ''Frank Miller'', age = ''22'', marks = ''88.5''\<rparr>])),
         writable = True\<rparr>
        [''1'', '' CS006 ''] =
     (Found [\<lparr>roll_number = ''CS006'', name = ''Frank Miller'', age = ''22'', marks = ''88.5''\<rparr>],
      \<lparr>students = demo_students @
         [\<lparr>roll_number = ''CS006'', name = ''Frank Miller'', age = ''22'', marks = ''88.5''\<rparr>],
       disk = Csv (fieldnames # map dict_to_list (demo_students @
         [\<lparr>roll_number = ''CS006'', name = ''Frank Miller'', age = ''22'', marks = ''88.5''\<rparr>])),
       writable = True\<rparr>, [])"
proof -
  let ?B = ascii_builtins
  let ?new = "\<lparr>roll_number = ''CS006'', name = ''Frank Miller'', age = ''22'', marks = ''88.5''\<rparr>"
  have h: "strip ?B '' CS006 '' \<noteq> []"
    "validate_roll_number (students demo_store) (strip ?B '' CS006 '')"
    "2 \<le> length (strip ?B (strip ?B ''frank miller''))"
    "int_of ?B (strip ?B ''22'') = Some 22" "(1::int) \<le> 22" "(22::int) \<le> 150"
    "float_of ?B (strip ?B ''88.5'') = Some (Finite 88.5)" "(0::real) \<le> 88.5" "(88.5::real) \<le> 100"
    "strip ?B ''1'' = ''1''"
    by code_simp+
  have n: "?new = \<lparr>roll_number = strip ?B '' CS006 '', name = title ?B (strip ?B ''frank miller''),
                    age = str_int 22, marks = str_float ?B (Finite 88.5)\<rparr>"
    by code_simp
  have e: "strip ?B ''frank miller'' = ''frank miller''"
    "\<forall>s \<in> set (students demo_store). lower ?B (roll_number s) \<noteq> lower ?B (strip ?B '' CS006 '')"
    by code_simp+
  have sv: "save_data (demo_store\<lparr>students := students demo_store @ [?new]\<rparr>) =
      (Saved, \<lparr>students = demo_students @ [?new],
         disk = Csv (fieldnames # map dict_to_list (demo_students @ [?new])), writable = True\<rparr>)"
    by (simp add: save_data_def save_body_def demo_store_def)
  from add_then_search_by_roll [OF h n refl, of "[]" "[]"] e sv
  show ?thesis by simp
qed

lemma validate_name_stripped: "validate_name B n \<Longrightarrow> strip B n \<noteq> []"
  by (simp add: validate_name_def)

lemma found_not_empty: "find_student sts r = Some i \<Longrightarrow> sts \<noteq> []"
  by (cases sts) simp_all

lemma update_student_name:
  assumes "strip B l \<noteq> []" "find_student (students st) (strip B l) = Some i"
    and "strip B c = ''1''" "strip B l_n \<noteq> []" "validate_name B (strip B l_n)"
  shows "update_student B st (l # c # l_n # ins) =
    (Updated (fst (save_data (st\<lparr>students := (students st)[i := (students st ! i)\<lparr>name := title B (strip B l_n)\<rparr>]\<rparr>))),
     snd (save_data (st\<lparr>students := (students st)[i := (students st ! i)\<lparr>name := title B (strip B l_n)\<rparr>]\<rparr>)),
     ins)"
  using assms found_not_empty [OF assms(2)]
  by (simp add: update_student_def update_name_block_def update_age_block_def
      update_marks_block_def Let_def split_beta)

lemma update_student_age:
  assumes "strip B l \<noteq> []" "find_student (students st) (strip B l) = Some i"
    and "strip B c = ''2''" "strip B l_a \<noteq> []" "validate_age B (strip B l_a) = Some a"
  shows "update_student B st (l # c # l_a # ins) =
    (Updated (fst (save_data (st\<lparr>students := (students st)[i := (students st ! i)\<lparr>age := str_int a\<rparr>]\<rparr>))),
     snd (save_data (st\<lparr>students := (students st)[i := (students st ! i)\<lparr>age := str_int a\<rparr>]\<rparr>)),
     ins)"
  using assms found_not_empty [OF assms(2)]
  by (simp add: update_student_def update_name_block_def update_age_block_def
      update_marks_block_def Let_def split_beta)

lemma update_student_marks:
  assumes "strip B l \<noteq> []" "find_student (students st) (strip B l) = Some i"
    and "strip B c = ''3''" "strip B l_m \<noteq> []" "validate_marks B (strip B l_m) = Some m"
  shows "update_student B st (l # c # l_m # ins) =
    (Updated (fst (save_data (st\<lparr>students := (students st)[i := (students st ! i)\<lparr>marks := str_float B m\<rparr>]\<rparr>))),
     snd (save_data (st\<lparr>students := (students st)[i := (students st ! i)\<lparr>marks := str_float B m\<rparr>]\<rparr>)),
     ins)"
  using assms found_not_empty [OF assms(2)]
  by (simp add: update_student_def update_name_block_def update_age_block_def
      update_marks_block_def Let_def split_beta)

lemma delete_student_confirmed:
  assumes "strip B l \<noteq> []" "find_student (students st) (strip B l) = Some i"
    and "lower B (strip B y) = ''y''"
  shows "delete_student B st (l # y # ins) =
    (Deleted (name (students st ! i))
       (fst (save_data (st\<lparr>students := take i (students st) @ drop (Suc i) (students st)\<rparr>))),
     snd (save_data (st\<lparr>students := take i (students st) @ drop (Suc i) (students st)\<rparr>)),
     ins)"
  using assms found_not_empty [OF assms(2)]
  by (simp add: delete_student_def Let_def split_beta)

text \<open>
  C10. \<^verbatim>\<open>update_student\<close> and \<^verbatim>\<open>delete_student\<close> of the command line look for the
  record with \<^verbatim>\<open>==\<close> on the stripped line and act on the first record whose roll
  number is exactly that string. Let the store be not empty and the stripped line not
  empty. When no record has exactly that roll number, both report that no student was
  found and change nothing, also when a record has a roll number that differs from it
  in letter case only. When \<open>i\<close> is the first index whose record has exactly that
  roll number, a confirmed delete removes the record at \<open>i\<close> and no other, and an
  update of the name, the age or the marks with a valid value writes that field of
  the record at \<open>i\<close> and no other; both then save. The search by roll number (menu
  choice 1) for the same line finds every record whose roll number is equal to it
  when both are lower-cased.
\<close>

theorem update_delete_exact_match:
  assumes "students st \<noteq> []" "strip B l \<noteq> []"
  shows "(strip B l \<notin> roll_number ` set (students st) \<longrightarrow>
        update_student B st (l # ins) = (NotFound (strip B l), st, ins)
        \<and> delete_student B st (l # ins) = (NotFound (strip B l), st, ins))
    \<and> (i < length (students st) \<and> roll_number (students st ! i) = strip B l
         \<and> (\<forall>j<i. roll_number (students st ! j) \<noteq> strip B l) \<longrightarrow>
        (lower B (strip B y) = ''y'' \<longrightarrow>
           delete_student B st (l # y # ins) =
             (Deleted (name (students st ! i))
                (fst (save_data (st\<lparr>students := take i (students st) @ drop (Suc i) (students st)\<rparr>))),
              snd (save_data (st\<lparr>students := take i (students st) @ drop (Suc i) (students st)\<rparr>)),
              ins))
        \<and> (strip B c = ''1'' \<and> strip B l_n \<noteq> [] \<and> validate_name B (strip B l_n) \<longrightarrow>
           update_student B st (l # c # l_n # ins) =
             (Updated (fst (save_data (st\<lparr>students :=
                  (students st)[i := (students st ! i)\<lparr>name := title B (strip B l_n)\<rparr>]\<rparr>))),
              snd (save_data (st\<lparr>students :=
                  (students st)[i := (students st ! i)\<lparr>name := title B (strip B l_n)\<rparr>]\<rparr>)),
              ins))
        \<and> (strip B c = ''2'' \<and> strip B l_a \<noteq> [] \<and> validate_age B (strip B l_a) = Some a \<longrightarrow>
           update_student B st (l # c # l_a # ins) =
             (Updated (fst (save_data (st\<lparr>students :=
                  (students st)[i := (students st ! i)\<lparr>age := str_int a\<rparr>]\<rparr>))),
              snd (save_data (st\<lparr>students :=
                  (students st)[i := (students st ! i)\<lparr>age := str_int a\<rparr>]\<rparr>)),
              ins))
        \<and> (strip B c = ''3'' \<and> strip B l_m \<noteq> [] \<and> validate_marks B (strip B l_m) = Some m \<longrightarrow>
           update_student B st (l # c # l_m # ins) =
             (Updated (fst (save_data (st\<lparr>students :=
                  (students st)[i := (students st ! i)\<lparr>marks := str_float B m\<rparr>]\<rparr>))),
              snd (save_data (st\<lparr>students :=
                  (students st)[i := (students st ! i)\<lparr>marks := str_float B m\<rparr>]\<rparr>)),
              ins)))
    \<and> (strip B c = ''1'' \<and> s \<in> set (students st)
         \<and> lower B (roll_number s) = lower B (strip B l) \<longrightarrow>
       search_student B st (c # l # ins) =
         (Found (filter (\<lambda>s. lower B (roll_number s) = lower B (strip B l)) (students st)), st, ins)
       \<and> s \<in> set (filter (\<lambda>s. lower B (roll_number s) = lower B (strip B l)) (students st)))"
proof -
  have notfound: "strip B l \<notin> roll_number ` set (students st) \<longrightarrow>
        update_student B st (l # ins) = (NotFound (strip B l), st, ins)
        \<and> delete_student B st (l # ins) = (NotFound (strip B l), st, ins)"
  proof
    assume "strip B l \<notin> roll_number ` set (students st)"
    then have nf: "find_student (students st) (strip B l) = None"
      by (simp add: find_student_None_iff)
    show "update_student B st (l # ins) = (NotFound (strip B l), st, ins)
        \<and> delete_student B st (l # ins) = (NotFound (strip B l), st, ins)"
      using assms nf by (simp add: update_student_def delete_student_def)
  qed
  have found: "i < length (students st) \<and> roll_number (students st ! i) = strip B l
         \<and> (\<forall>j<i. roll_number (students st ! j) \<noteq> strip B l) \<longrightarrow>
       find_student (students st) (strip B l) = Some i"
    by (simp add: find_student_Some_iff)
  have srch: "strip B c = ''1'' \<and> s \<in> set (students st)
         \<and> lower B (roll_number s) = lower B (strip B l) \<longrightarrow>
       search_student B st (c # l # ins) =
         (Found (filter (\<lambda>s. lower B (roll_number s) = lower B (strip B l)) (students st)), st, ins)
       \<and> s \<in> set (filter (\<lambda>s. lower B (roll_number s) = lower B (strip B l)) (students st))"
    using assms by (auto simp: search_student_def filter_empty_conv Let_def)
  from notfound found srch
    delete_student_confirmed [OF assms(2), of st i y ins]
    update_student_name [OF assms(2), of st i c l_n ins]
    update_student_age [OF assms(2), of st i c l_a a ins]
    update_student_marks [OF assms(2), of st i c l_m m ins]
  show ?thesis by blast
qed

theorem update_delete_exact_match_witness:
  "update_student ascii_builtins one_student [''cs001'', ''1'', ''Eve''] =
     (NotFound ''cs001'', one_student, [''1'', ''Eve''])
   \<and> delete_student ascii_builtins one_student [''cs001'', ''y''] =
     (NotFound ''cs001'', one_student, [''y''])
   \<and> search_student ascii_builtins one_student [''1'', ''cs001''] =
     (Found (students one_student), one_student, [])
   \<and> map roll_number (students (fst (snd
        (delete_student ascii_builtins demo_store [''CS002'', ''y''])))) =
     [''CS001'', ''CS003'', ''CS004'', ''CS005'']
   \<and> map name (students (fst (snd
        (update_student ascii_builtins demo_store [''CS002'', ''1'', ''robert smith''])))) =
     [''Alice Johnson'', ''Robert Smith'', ''Charlie Brown'', ''Diana Prince'', ''Eve Wilson'']
   \<and> map age (students (fst (snd
        (update_student ascii_builtins demo_store [''CS002'', ''2'', ''21''])))) =
     [''20'', ''21'', ''21'', ''20'', ''19'']
   \<and> map marks (students (fst (snd
        (update_student ascii_builtins demo_store [''CS002'', ''3'', ''90''])))) =
     [''95'', ''90.0'', ''78'', ''92'', ''69'']"
proof -
  let ?B = ascii_builtins
  have a: "students one_student \<noteq> []" "strip ?B ''cs001'' \<noteq> []"
    by code_simp+
  have n: "strip ?B ''cs001'' \<notin> roll_number ` set (students one_student)"
    by code_simp
  have b: "strip ?B ''1'' = ''1'' \<and> hd (students one_student) \<in> set (students one_student)
     \<and> lower ?B (roll_number (hd (students one_student))) = lower ?B (strip ?B ''cs001'')"
    by code_simp
  have e: "strip ?B ''cs001'' = ''cs001''"
    "filter (\<lambda>s. lower ?B (roll_number s) = lower ?B ''cs001'')
       (students one_student) = students one_student"
    by code_simp+
  have d: "students demo_store \<noteq> []" "strip ?B ''CS002'' \<noteq> []"
    by code_simp+
  have f: "1 < length (students demo_store) \<and> roll_number (students demo_store ! 1) = strip ?B ''CS002''
         \<and> (\<forall>j<1. roll_number (students demo_store ! j) \<noteq> strip ?B ''CS002'')"
  proof -
    have "roll_number (students demo_store ! 1) = strip ?B ''CS002''"
      "roll_number (students demo_store ! 0) \<noteq> strip ?B ''CS002''"
      "1 < length (students demo_store)"
      by code_simp+
    then show ?thesis by simp
  qed
  have h1: "lower ?B (strip ?B ''y'') = ''y''"
    and h2: "strip ?B ''1'' = ''1'' \<and> strip ?B ''robert smith'' \<noteq> [] \<and> validate_name ?B (strip ?B ''robert smith'')"
    and h3: "strip ?B ''2'' = ''2'' \<and> strip ?B ''21'' \<noteq> [] \<and> validate_age ?B (strip ?B ''21'') = Some 21"
    and h4: "strip ?B ''3'' = ''3'' \<and> strip ?B ''90'' \<noteq> [] \<and> validate_marks ?B (strip ?B ''90'') = Some (Finite 90)"
    by code_simp+
  have v: "title ?B (strip ?B ''robert smith'') = ''Robert Smith''" "str_int 21 = ''21''"
    "str_float ?B (Finite 90) = ''90.0''"
    by code_simp+
  note del = update_delete_exact_match [OF d, where ins = "[]" and i = 1 and y = "''y''",
      THEN conjunct2, THEN conjunct1, THEN mp, OF f, THEN conjunct1, THEN mp, OF h1]
  note un = update_delete_exact_match [OF d, where ins = "[]" and i = 1 and c = "''1''"
        and l_n = "''robert smith''",
      THEN conjunct2, THEN conjunct1, THEN mp, OF f, THEN conjunct2, THEN conjunct1, THEN mp, OF h2]
  note ua = update_delete_exact_match [OF d, where ins = "[]" and i = 1 and c = "''2''"
        and l_a = "''21''" and a = 21,
      THEN conjunct2, THEN conjunct1, THEN mp, OF f,
      THEN conjunct2, THEN conjunct2, THEN conjunct1, THEN mp, OF h3]
  note um = update_delete_exact_match [OF d, where ins = "[]" and i = 1 and c = "''3''"
        and l_m = "''90''" and m = "Finite 90",
      THEN conjunct2, THEN conjunct1, THEN mp, OF f,
      THEN conjunct2, THEN conjunct2, THEN conjunct2, THEN mp, OF h4]
  note nf1 = update_delete_exact_match [OF a, where ins = "[''1'', ''Eve'']",
      THEN conjunct1, THEN mp, OF n, THEN conjunct1]
  note nf2 = update_delete_exact_match [OF a, where ins = "[''y'']",
      THEN conjunct1, THEN mp, OF n, THEN conjunct2]
  note sr = update_delete_exact_match [OF a, where ins = "[]" and c = "''1''"
        and s = "hd (students one_student)",
      THEN conjunct2, THEN conjunct2, THEN mp, OF b, THEN conjunct1]
  have p1: "map roll_number (students (fst (snd
        (delete_student ?B demo_store [''CS002'', ''y''])))) =
     [''CS001'', ''CS003'', ''CS004'', ''CS005'']"
    by (simp add: del save_data_students) (simp add: demo_store_def demo_students_def)
  have p2: "map name (students (fst (snd
        (update_student ?B demo_store [''CS002'', ''1'', ''robert smith''])))) =
     [''Alice Johnson'', ''Robert Smith'', ''Charlie Brown'', ''Diana Prince'', ''Eve Wilson'']"
    by (simp add: un save_data_students v) (simp add: demo_store_def demo_students_def)
  have p3: "map age (students (fst (snd
        (update_student ?B demo_store [''CS002'', ''2'', ''21''])))) =
     [''20'', ''21'', ''21'', ''20'', ''19'']"
    by (simp add: ua save_data_students v) (simp add: demo_store_def demo_students_def)
  have p4: "map marks (students (fst (snd
        (update_student ?B demo_store [''CS002'', ''3'', ''90''])))) =
     [''95'', ''90.0'', ''78'', ''92'', ''69'']"
    by (simp add: um save_data_students v) (simp add: demo_store_def demo_students_def)
  from nf1 nf2 sr p1 p2 p3 p4 show ?thesis
    by (simp add: e)
qed

section \<open>Updating a record\<close>

lemma map_list_update_same:
  "f y = f (xs ! i) \<Longrightarrow> map f (xs[i := y]) = map f xs"
  by (induction xs arbitrary: i) (auto split: nat.splits)

lemma update_name_block_rolls:
  "map roll_number (students (fst (snd (update_name_block B i c u)))) =
     map roll_number (students (fst (snd u)))"
  by (cases u) (auto simp: update_name_block_def map_list_update_same split: option.splits)

lemma update_age_block_rolls:
  "map roll_number (students (fst (snd (update_age_block B i c u)))) =
     map roll_number (students (fst (snd u)))"
  by (cases u) (auto simp: update_age_block_def map_list_update_same split: option.splits)

lemma update_marks_block_rolls:
  "map roll_number (students (fst (snd (update_marks_block B i c u)))) =
     map roll_number (students (fst (snd u)))"
  by (cases u) (auto simp: update_marks_block_def map_list_update_same split: option.splits)

text \<open>
  The command line's \<^verbatim>\<open>update_student\<close> leaves the roll number of every record as it
  is, whatever is typed and however the operation ends.
\<close>

lemma update_student_keeps_roll_numbers:
  "map roll_number (students (fst (snd (update_student B st ins)))) =
     map roll_number (students st)"
proof -
  have blocks: "map roll_number (students (fst (snd
      (update_marks_block B i c (update_age_block B i c (update_name_block B i c (None, st, False, ins2))))))) =
     map roll_number (students st)" for i c ins2
    by (simp add: update_marks_block_rolls update_age_block_rolls update_name_block_rolls)
  show ?thesis
    using blocks
    by (auto simp: update_student_def Let_def save_data_students split_beta
        split: list.splits option.splits prod.splits)
qed

lemma add_student_keeps_records:
  "take (length (students st)) (students (fst (snd (add_student B st ins)))) = students st"
  by (auto simp: add_student_def Let_def split_beta save_data_students split: option.splits)

lemma search_student_keeps_store: "fst (snd (search_student B st ins)) = st"
  by (auto simp: search_student_def Let_def split: option.splits list.splits)

lemma set_take_drop_subset: "set (take i xs @ drop (Suc i) xs) \<subseteq> set xs"
  by (auto dest: in_set_takeD in_set_dropD)

lemma delete_student_keeps_records:
  "set (students (fst (snd (delete_student B st ins)))) \<subseteq> set (students st)"
  using set_take_drop_subset [of _ "students st"]
  by (auto simp: delete_student_def Let_def split_beta save_data_students
      split: option.splits list.splits bool.splits)

lemma gui_delete_student_keeps_records:
  "set (students (snd (gui_delete_student sel conf st))) \<subseteq> set (students st)"
  by (auto simp: gui_delete_student_def Let_def split_beta gui_save_data_def save_body_def
      split: option.splits)

lemma gui_save_data_students: "students (snd (gui_save_data st)) = students st"
  by (simp add: gui_save_data_eq save_data_students)

text \<open>
  C2. No operation changes the roll number of a record. The command line's
  \<^verbatim>\<open>update_student\<close> leaves the roll number of every record as it is, position by
  position, whatever is typed and however the operation ends: it writes the keys
  \<^verbatim>\<open>name\<close>, \<^verbatim>\<open>age\<close> and \<^verbatim>\<open>marks\<close> only. The GUI's
  \<^verbatim>\<open>edit_student_dialog\<close> returns with the store as it was: it reads the result of
  the dialog while that is still \<^verbatim>\<open>None\<close> and never reaches
  \<^verbatim>\<open>student.update\<close>. Of the other operations, the command line's add keeps the
  records that were there, in place; the GUI's add and the search leave the store as
  it is; the two deletes only remove records, so that every record left is a record
  that was there; and saving leaves the list as it is.
\<close>

theorem roll_number_never_changed:
  "map roll_number (students (fst (snd (update_student B st ins)))) = map roll_number (students st)
   \<and> snd (edit_student_dialog sel st) = st
   \<and> take (length (students st)) (students (fst (snd (add_student B st ins)))) = students st
   \<and> snd (add_student_dialog st) = st
   \<and> fst (snd (search_student B st ins)) = st
   \<and> set (students (fst (snd (delete_student B st ins)))) \<subseteq> set (students st)
   \<and> set (students (snd (gui_delete_student sel' conf st))) \<subseteq> set (students st)
   \<and> students (snd (save_data st)) = students st
   \<and> students (snd (gui_save_data st)) = students st"
  by (simp add: update_student_keeps_roll_numbers edit_student_dialog_keeps_store
      add_student_keeps_records add_student_dialog_keeps_store search_student_keeps_store
      delete_student_keeps_records gui_delete_student_keeps_records save_data_students
      gui_save_data_students)

theorem roll_number_never_changed_witness:
  "update_student ascii_builtins demo_store [''CS001'', ''4'', ''bob'', ''21'', ''90''] =
     (Updated Saved,
      \<lparr>students = demo_students[0 := \<lparr>roll_number = ''CS001'', name = ''Bob'', age = ''21'', marks = ''90.0''\<rparr>],
       disk = Csv (fieldnames # map dict_to_list
         (demo_students[0 := \<lparr>roll_number = ''CS001'', name = ''Bob'', age = ''21'', marks = ''90.0''\<rparr>])),
       writable = True\<rparr>, [])
   \<and> map roll_number (students (fst (snd
        (update_student ascii_builtins demo_store [''CS001'', ''4'', ''bob'', ''21'', ''90''])))) =
     [''CS001'', ''CS002'', ''CS003'', ''CS004'', ''CS005'']
   \<and> edit_student_dialog (Some ''CS001'') demo_store = (NoResult, demo_store)"
proof -
  have u: "update_student ascii_builtins demo_store [''CS001'', ''4'', ''bob'', ''21'', ''90''] =
     (Updated Saved,
      \<lparr>students = demo_students[0 := \<lparr>roll_number = ''CS001'', name = ''Bob'', age = ''21'', marks = ''90.0''\<rparr>],
       disk = Csv (fieldnames # map dict_to_list
         (demo_students[0 := \<lparr>roll_number = ''CS001'', name = ''Bob'', age = ''21'', marks = ''90.0''\<rparr>])),
       writable = True\<rparr>, [])"
    by code_simp
  have r: "map roll_number (students demo_store) = [''CS001'', ''CS002'', ''CS003'', ''CS004'', ''CS005'']"
    by code_simp
  have e: "fst (edit_student_dialog (Some ''CS001'') demo_store) = NoResult"
    by code_simp
  note T = roll_number_never_changed [of ascii_builtins demo_store
      "[''CS001'', ''4'', ''bob'', ''21'', ''90'']" "Some ''CS001''"]
  have m: "map roll_number (students (fst (snd
        (update_student ascii_builtins demo_store [''CS001'', ''4'', ''bob'', ''21'', ''90''])))) =
     [''CS001'', ''CS002'', ''CS003'', ''CS004'', ''CS005'']"
    using T [THEN conjunct1] r by simp
  have k: "edit_student_dialog (Some ''CS001'') demo_store = (NoResult, demo_store)"
    using T [THEN conjunct2, THEN conjunct1] e by (simp add: prod_eq_iff)
  from u m k show ?thesis by simp
qed

text \<open>
  What \<^verbatim>\<open>update_student\<close> writes. \<open>valid_writes B ins\<close> is reflexive and
  transitive, and grows with the lines; each loop returns a value made from one of
  its lines that passed the validator, and lines left that were among its lines.
\<close>

lemma valid_writes_refl: "valid_writes B ins s s"
  by (simp add: valid_writes_def)

lemma valid_writes_mono:
  "valid_writes B ins s s' \<Longrightarrow> set ins \<subseteq> set ins' \<Longrightarrow> valid_writes B ins' s s'"
  unfolding valid_writes_def list_ex_iff by blast

lemma valid_writes_trans:
  "valid_writes B ins s s' \<Longrightarrow> valid_writes B ins s' s'' \<Longrightarrow> valid_writes B ins s s''"
  unfolding valid_writes_def list_ex_iff by metis

lemma valid_writes_ageI:
  "l \<in> set ins \<Longrightarrow> validate_age B (strip B l) = Some a \<Longrightarrow>
     valid_writes B ins s (s\<lparr>age := str_int a\<rparr>)"
  by (auto simp: valid_writes_def list_ex_iff intro!: bexI [of _ l])

lemma valid_writes_marksI:
  "l \<in> set ins \<Longrightarrow> validate_marks B (strip B l) = Some m \<Longrightarrow>
     valid_writes B ins s (s\<lparr>marks := str_float B m\<rparr>)"
  by (auto simp: valid_writes_def list_ex_iff intro!: bexI [of _ l])

lemma valid_writes_nameI:
  "l \<in> set ins \<Longrightarrow> validate_name B (strip B l) \<Longrightarrow>
     valid_writes B ins s (s\<lparr>name := title B (strip B l)\<rparr>)"
  by (auto simp: valid_writes_def list_ex_iff intro!: bexI [of _ l])

lemma list_all2_update_right:
  "R (xs ! i) y \<Longrightarrow> (\<And>x. R x x) \<Longrightarrow> list_all2 R xs (xs[i := y])"
  by (cases "i < length xs") (auto simp: list_all2_conv_all_nth nth_list_update)

lemma update_name_loop_result:
  "update_name_loop B ins = Some (v, rest) \<Longrightarrow>
     (\<exists>l\<in>set ins. validate_name B (strip B l) \<and> v = title B (strip B l)) \<and> set rest \<subseteq> set ins"
proof (induction ins)
  case Nil
  then show ?case by simp
next
  case (Cons l ins)
  then show ?case
    by (auto simp: Let_def split: if_splits)
qed

lemma update_age_loop_result:
  "update_age_loop B ins = Some (r, rest) \<Longrightarrow>
     (\<forall>v. r = Some v \<longrightarrow> (\<exists>l\<in>set ins. \<exists>a. validate_age B (strip B l) = Some a \<and> v = str_int a))
     \<and> set rest \<subseteq> set ins"
proof (induction ins)
  case Nil
  then show ?case by simp
next
  case (Cons l ins)
  then show ?case
    by (auto simp: Let_def split: if_splits option.splits)
qed

lemma update_marks_loop_result:
  "update_marks_loop B ins = Some (r, rest) \<Longrightarrow>
     (\<forall>v. r = Some v \<longrightarrow> (\<exists>l\<in>set ins. \<exists>m. validate_marks B (strip B l) = Some m \<and> v = str_float B m))
     \<and> set rest \<subseteq> set ins"
proof (induction ins)
  case Nil
  then show ?case by simp
next
  case (Cons l ins)
  then show ?case
    by (auto simp: Let_def split: if_splits option.splits)
qed

lemma read_choice_rest: "read_choice B opts ins = Some (c, rest) \<Longrightarrow> set rest \<subseteq> set ins"
  by (induction ins) (auto split: if_splits)

lemma update_name_block_valid:
  assumes "update_name_block B i c (x, st, u, ins) = (x', st', u', ins')"
  shows "list_all2 (valid_writes B ins) (students st) (students st') \<and> set ins' \<subseteq> set ins"
proof (cases "x \<noteq> None \<or> c \<notin> set [''1'', ''4'']")
  case True
  with assms show ?thesis
    by (auto simp: update_name_block_def list_all2_refl valid_writes_refl)
next
  case False
  show ?thesis
  proof (cases "update_name_loop B ins")
    case None
    with False assms show ?thesis
      by (auto simp: update_name_block_def list_all2_refl valid_writes_refl)
  next
    case (Some p)
    obtain v rest where p: "p = (v, rest)" by (cases p)
    from update_name_loop_result [of B ins v rest] Some p
    have w: "\<exists>l\<in>set ins. validate_name B (strip B l) \<and> v = title B (strip B l)"
      and r: "set rest \<subseteq> set ins" by auto
    have "valid_writes B ins (students st ! i) ((students st ! i)\<lparr>name := v\<rparr>)"
      using w by (auto intro: valid_writes_nameI)
    then have "list_all2 (valid_writes B ins) (students st)
        ((students st)[i := (students st ! i)\<lparr>name := v\<rparr>])"
      by (rule list_all2_update_right) (rule valid_writes_refl)
    with False assms Some p r show ?thesis
      by (auto simp: update_name_block_def)
  qed
qed

lemma update_age_block_valid:
  assumes "update_age_block B i c (x, st, u, ins) = (x', st', u', ins')"
  shows "list_all2 (valid_writes B ins) (students st) (students st') \<and> set ins' \<subseteq> set ins"
proof (cases "x \<noteq> None \<or> c \<notin> set [''2'', ''4'']")
  case True
  with assms show ?thesis
    by (auto simp: update_age_block_def list_all2_refl valid_writes_refl)
next
  case False
  show ?thesis
  proof (cases "update_age_loop B ins")
    case None
    with False assms show ?thesis
      by (auto simp: update_age_block_def list_all2_refl valid_writes_refl)
  next
    case (Some p)
    obtain r rest where p: "p = (r, rest)" by (cases p)
    from update_age_loop_result [of B ins r rest] Some p
    have w: "\<forall>v. r = Some v \<longrightarrow> (\<exists>l\<in>set ins. \<exists>a. validate_age B (strip B l) = Some a \<and> v = str_int a)"
      and rs: "set rest \<subseteq> set ins" by auto
    show ?thesis
    proof (cases r)
      case None
      with False assms Some p rs show ?thesis
        by (auto simp: update_age_block_def list_all2_refl valid_writes_refl)
    next
      case (Some v)
      have "valid_writes B ins (students st ! i) ((students st ! i)\<lparr>age := v\<rparr>)"
        using w Some by (auto intro: valid_writes_ageI)
      then have "list_all2 (valid_writes B ins) (students st)
          ((students st)[i := (students st ! i)\<lparr>age := v\<rparr>])"
        by (rule list_all2_update_right) (rule valid_writes_refl)
      with False assms \<open>update_age_loop B ins = Some p\<close> p Some rs show ?thesis
        by (auto simp: update_age_block_def)
    qed
  qed
qed

lemma update_marks_block_valid:
  assumes "update_marks_block B i c (x, st, u, ins) = (x', st', u', ins')"
  shows "list_all2 (valid_writes B ins) (students st) (students st') \<and> set ins' \<subseteq> set ins"
proof (cases "x \<noteq> None \<or> c \<notin> set [''3'', ''4'']")
  case True
  with assms show ?thesis
    by (auto simp: update_marks_block_def list_all2_refl valid_writes_refl)
next
  case False
  show ?thesis
  proof (cases "update_marks_loop B ins")
    case None
    with False assms show ?thesis
      by (auto simp: update_marks_block_def list_all2_refl valid_writes_refl)
  next
    case (Some p)
    obtain r rest where p: "p = (r, rest)" by (cases p)
    from update_marks_loop_result [of B ins r rest] Some p
    have w: "\<forall>v. r = Some v \<longrightarrow> (\<exists>l\<in>set ins. \<exists>m. validate_marks B (strip B l) = Some m \<and> v = str_float B m)"
      and rs: "set rest \<subseteq> set ins" by auto
    show ?thesis
    proof (cases r)
      case None
      with False assms Some p rs show ?thesis
        by (auto simp: update_marks_block_def list_all2_refl valid_writes_refl)
    next
      case (Some v)
      have "valid_writes B ins (students st ! i) ((students st ! i)\<lparr>marks := v\<rparr>)"
        using w Some by (auto intro: valid_writes_marksI)
      then have "list_all2 (valid_writes B ins) (students st)
          ((students st)[i := (students st ! i)\<lparr>marks := v\<rparr>])"
        by (rule list_all2_update_right) (rule valid_writes_refl)
      with False assms \<open>update_marks_loop B ins = Some p\<close> p Some rs show ?thesis
        by (auto simp: update_marks_block_def)
    qed
  qed
qed

lemma list_all2_valid_writes_mono:
  "list_all2 (valid_writes B ins) xs ys \<Longrightarrow> set ins \<subseteq> set ins' \<Longrightarrow>
     list_all2 (valid_writes B ins') xs ys"
  by (erule list_all2_mono) (rule valid_writes_mono)

lemma list_all2_valid_writes_trans:
  "list_all2 (valid_writes B ins) xs ys \<Longrightarrow> list_all2 (valid_writes B ins) ys zs \<Longrightarrow>
     list_all2 (valid_writes B ins) xs zs"
  using list_all2_trans [of "valid_writes B ins" "valid_writes B ins" "valid_writes B ins" xs ys zs]
    valid_writes_trans [of B ins]
  by blast

lemma update_blocks_valid:
  assumes "update_marks_block B i c (update_age_block B i c (update_name_block B i c (None, st, False, ins)))
    = (x, st', u, ins')"
  shows "list_all2 (valid_writes B ins) (students st) (students st')"
proof -
  obtain x1 st1 u1 ins1 where n: "update_name_block B i c (None, st, False, ins) = (x1, st1, u1, ins1)"
    by (cases "update_name_block B i c (None, st, False, ins)") auto
  obtain x2 st2 u2 ins2 where a: "update_age_block B i c (x1, st1, u1, ins1) = (x2, st2, u2, ins2)"
    by (cases "update_age_block B i c (x1, st1, u1, ins1)") auto
  from assms n a have m: "update_marks_block B i c (x2, st2, u2, ins2) = (x, st', u, ins')"
    by simp
  from update_name_block_valid [OF n]
  have v1: "list_all2 (valid_writes B ins) (students st) (students st1)" and s1: "set ins1 \<subseteq> set ins"
    by auto
  from update_age_block_valid [OF a]
  have v2: "list_all2 (valid_writes B ins1) (students st1) (students st2)" and s2: "set ins2 \<subseteq> set ins1"
    by auto
  from update_marks_block_valid [OF m]
  have v3: "list_all2 (valid_writes B ins2) (students st2) (students st')"
    by auto
  from v2 s1 have v2': "list_all2 (valid_writes B ins) (students st1) (students st2)"
    by (rule list_all2_valid_writes_mono)
  from v3 s2 s1 have v3': "list_all2 (valid_writes B ins) (students st2) (students st')"
    by (auto intro: list_all2_valid_writes_mono)
  from v1 v2' v3' show ?thesis
    by (blast intro: list_all2_valid_writes_trans)
qed

lemma update_student_valid_writes:
  "list_all2 (valid_writes B ins) (students st) (students (fst (snd (update_student B st ins))))"
proof -
  have refl: "list_all2 (valid_writes B ins) (students st) (students st)"
    by (simp add: list_all2_refl valid_writes_refl)
  show ?thesis
  proof (cases "students st = []")
    case True
    then show ?thesis by (simp add: update_student_def)
  next
    case ne: False
    show ?thesis
    proof (cases ins)
      case Nil
      with ne refl show ?thesis by (simp add: update_student_def)
    next
      case (Cons l ins1)
      show ?thesis
      proof (cases "strip B l = []")
        case True
        with ne Cons refl show ?thesis by (simp add: update_student_def)
      next
        case r: False
        show ?thesis
        proof (cases "find_student (students st) (strip B l)")
          case None
          with ne Cons r refl show ?thesis by (simp add: update_student_def)
        next
          case (Some i)
          show ?thesis
          proof (cases "read_choice B [''1'', ''2'', ''3'', ''4''] ins1")
            case None
            with ne Cons r Some refl show ?thesis by (simp add: update_student_def)
          next
            case ch: (Some p)
            obtain c ins2 where p: "p = (c, ins2)" by (cases p)
            obtain x st' u ins' where b:
              "update_marks_block B i c (update_age_block B i c (update_name_block B i c (None, st, False, ins2)))
                = (x, st', u, ins')"
              by (cases "update_marks_block B i c (update_age_block B i c (update_name_block B i c (None, st, False, ins2)))") auto
            from read_choice_rest ch p have "set ins2 \<subseteq> set ins1" by blast
            then have sub: "set ins2 \<subseteq> set ins" using Cons by auto
            from update_blocks_valid [OF b] sub
            have v: "list_all2 (valid_writes B ins) (students st) (students st')"
              by (rule list_all2_valid_writes_mono)
            have "students (fst (snd (update_student B st ins))) = students st'"
              using ne Cons r Some ch p b
              by (cases x) (simp_all add: update_student_def split_beta save_data_students)
            with v show ?thesis by simp
          qed
        qed
      qed
    qed
  qed
qed

text \<open>
  The checks of \<^verbatim>\<open>StudentDialog.save_student\<close>, and a line that fails its
  validator in \<^verbatim>\<open>update_student\<close>: the prompt is repeated, and the operation goes
  on as if the line had not been typed.
\<close>

lemma save_student_fails:
  assumes "length (strip B (name e)) < 2 \<or> validate_age B (strip B (age e)) = None
           \<or> validate_marks B (strip B (marks e)) = None"
  shows "isl (save_student B e)"
  using assms
  by (auto simp: save_student_def validate_age_def validate_marks_def Let_def
      split: option.splits if_splits)

lemma update_student_skips_name:
  assumes "strip B l \<noteq> []" "find_student (students st) (strip B l) = Some i"
    and "strip B c = ''1''" "\<not> validate_name B (strip B l_n)"
  shows "update_student B st (l # c # l_n # ins) = update_student B st (l # c # ins)"
  using assms found_not_empty [OF assms(2)]
  by (simp add: update_student_def update_name_block_def Let_def)

lemma update_student_skips_age:
  assumes "strip B l \<noteq> []" "find_student (students st) (strip B l) = Some i"
    and "strip B c = ''2''" "strip B l_a \<noteq> []" "validate_age B (strip B l_a) = None"
  shows "update_student B st (l # c # l_a # ins) = update_student B st (l # c # ins)"
  using assms found_not_empty [OF assms(2)]
  by (simp add: update_student_def update_name_block_def update_age_block_def Let_def)

lemma update_student_skips_marks:
  assumes "strip B l \<noteq> []" "find_student (students st) (strip B l) = Some i"
    and "strip B c = ''3''" "strip B l_m \<noteq> []" "validate_marks B (strip B l_m) = None"
  shows "update_student B st (l # c # l_m # ins) = update_student B st (l # c # ins)"
  using assms found_not_empty [OF assms(2)]
  by (simp add: update_student_def update_name_block_def update_age_block_def
      update_marks_block_def Let_def)

lemma update_student_partial_eof:
  assumes "strip B l \<noteq> []" "find_student (students st) (strip B l) = Some i"
    and "strip B c = ''4''" "strip B l_v \<noteq> []" "validate_name B (strip B l_v)"
    and "strip B l_a \<noteq> []" "validate_age B (strip B l_a) = None"
  shows "update_student B st [l, c, l_v, l_a] =
    (Raised EOFError,
     st\<lparr>students := (students st)[i := (students st ! i)\<lparr>name := title B (strip B l_v)\<rparr>]\<rparr>, [])"
  using assms found_not_empty [OF assms(2)]
  by (simp add: update_student_def update_name_block_def update_age_block_def
      update_marks_block_def Let_def)

lemma update_student_partial_saved:
  assumes "strip B l \<noteq> []" "find_student (students st) (strip B l) = Some i"
    and "strip B c = ''4''" "strip B l_v \<noteq> []" "validate_name B (strip B l_v)"
    and "strip B l_a \<noteq> []" "validate_age B (strip B l_a) = None"
    and "strip B b1 = []" "strip B b2 = []"
  shows "update_student B st (l # c # l_v # l_a # b1 # b2 # ins) =
    (Updated (fst (save_data (st\<lparr>students :=
         (students st)[i := (students st ! i)\<lparr>name := title B (strip B l_v)\<rparr>]\<rparr>))),
     snd (save_data (st\<lparr>students :=
         (students st)[i := (students st ! i)\<lparr>name := title B (strip B l_v)\<rparr>]\<rparr>)),
     ins)"
  using assms found_not_empty [OF assms(2)]
  by (simp add: update_student_def update_name_block_def update_age_block_def
      update_marks_block_def Let_def split_beta)

text \<open>
  C3, as the claim states it, fails on the command line: in an update of all details
  of CS001 the name bob is accepted and written, the age 0 fails \<^verbatim>\<open>validate_age\<close>,
  the prompt is repeated, and after two blank lines the record is saved with the new
  name.
\<close>

theorem update_partial_counterexample:
  "validate_age ascii_builtins ''0'' = None
   \<and> update_student ascii_builtins demo_store [''CS001'', ''4'', ''bob'', ''0'', '''', ''''] =
     (Updated Saved,
      \<lparr>students = demo_students[0 := (demo_students ! 0)\<lparr>name := ''Bob''\<rparr>],
       disk = Csv (fieldnames # map dict_to_list (demo_students[0 := (demo_students ! 0)\<lparr>name := ''Bob''\<rparr>])),
       writable = True\<rparr>, [])
   \<and> name (demo_students ! 0) = ''Alice Johnson''"
  by code_simp

text \<open>
  C3, amended. In the GUI, \<^verbatim>\<open>save_student\<close> builds no result when the name, age
  or marks entry fails its check, and \<^verbatim>\<open>edit_student_dialog\<close> leaves the store as
  it is. On the command line, \<^verbatim>\<open>update_student\<close> never writes a value that failed
  its validator: however the update ends, every record has the roll number it had,
  and each of its other fields is what it was, or what the code stores for a typed
  line that passed the validator of that field (the title-cased name, \<^verbatim>\<open>str\<close> of
  the validated age or marks). When the roll number typed is found, a line that fails
  the validator of the field chosen is dropped and the prompt repeated, so the update
  goes on as if the line had not been typed. The update is not abandoned, though:
  with the choice of all details, a valid name is written as soon as it is typed and
  stays written when the age typed next fails; if the input ends there the operation
  ends with the new name in the record, and if two blank lines follow (keep the age,
  keep the marks) the record is saved with the new name.
\<close>

theorem update_validation_failure:
  "(length (strip B (name e)) < 2 \<or> validate_age B (strip B (age e)) = None
      \<or> validate_marks B (strip B (marks e)) = None \<longrightarrow> isl (save_student B e))
   \<and> snd (edit_student_dialog sel st) = st
   \<and> list_all2 (valid_writes B ins) (students st) (students (fst (snd (update_student B st ins))))
   \<and> (strip B l \<noteq> [] \<and> find_student (students st) (strip B l) = Some i \<longrightarrow>
        (strip B c = ''1'' \<and> \<not> validate_name B (strip B l_n) \<longrightarrow>
           update_student B st (l # c # l_n # ins) = update_student B st (l # c # ins))
        \<and> (strip B c = ''2'' \<and> strip B l_a \<noteq> [] \<and> validate_age B (strip B l_a) = None \<longrightarrow>
           update_student B st (l # c # l_a # ins) = update_student B st (l # c # ins))
        \<and> (strip B c = ''3'' \<and> strip B l_m \<noteq> [] \<and> validate_marks B (strip B l_m) = None \<longrightarrow>
           update_student B st (l # c # l_m # ins) = update_student B st (l # c # ins))
        \<and> (strip B c = ''4'' \<and> strip B l_v \<noteq> [] \<and> validate_name B (strip B l_v)
             \<and> strip B l_a \<noteq> [] \<and> validate_age B (strip B l_a) = None \<longrightarrow>
           update_student B st [l, c, l_v, l_a] =
             (Raised EOFError,
              st\<lparr>students := (students st)[i := (students st ! i)\<lparr>name := title B (strip B l_v)\<rparr>]\<rparr>,
              [])
           \<and> (strip B b1 = [] \<and> strip B b2 = [] \<longrightarrow>
              update_student B st (l # c # l_v # l_a # b1 # b2 # ins) =
                (Updated (fst (save_data (st\<lparr>students :=
                     (students st)[i := (students st ! i)\<lparr>name := title B (strip B l_v)\<rparr>]\<rparr>))),
                 snd (save_data (st\<lparr>students :=
                     (students st)[i := (students st ! i)\<lparr>name := title B (strip B l_v)\<rparr>]\<rparr>)),
                 ins))))"
proof -
  have gui: "length (strip B (name e)) < 2 \<or> validate_age B (strip B (age e)) = None
      \<or> validate_marks B (strip B (marks e)) = None \<longrightarrow> isl (save_student B e)"
    by (rule impI) (rule save_student_fails)
  note edit = edit_student_dialog_keeps_store [of sel st]
  note valid = update_student_valid_writes [of B ins st]
  from gui edit valid
    update_student_skips_name [of B l st i c l_n ins]
    update_student_skips_age [of B l st i c l_a ins]
    update_student_skips_marks [of B l st i c l_m ins]
    update_student_partial_eof [of B l st i c l_v l_a]
    update_student_partial_saved [of B l st i c l_v l_a b1 b2 ins]
  show ?thesis by blast
qed

theorem update_validation_failure_witness:
  "isl (save_student ascii_builtins
          \<lparr>roll_number = ''CS001'', name = ''Alice Johnson'', age = ''0'', marks = ''95''\<rparr>)
   \<and> list_all2 (valid_writes ascii_builtins [''CS001'', ''4'', ''bob'', ''0'', '''', ''''])
        (students demo_store)
        (students (fst (snd (update_student ascii_builtins demo_store
           [''CS001'', ''4'', ''bob'', ''0'', '''', '''']))))
   \<and> update_student ascii_builtins demo_store [''CS001'', ''1'', ''x'', ''bob''] =
     update_student ascii_builtins demo_store [''CS001'', ''1'', ''bob'']
   \<and> update_student ascii_builtins demo_store [''CS001'', ''2'', ''0'', ''21''] =
     update_student ascii_builtins demo_store [''CS001'', ''2'', ''21'']
   \<and> update_student ascii_builtins demo_store [''CS001'', ''3'', ''101'', ''90''] =
     update_student ascii_builtins demo_store [''CS001'', ''3'', ''90'']
   \<and> update_student ascii_builtins demo_store [''CS001'', ''4'', ''bob'', ''0''] =
     (Raised EOFError,
      demo_store\<lparr>students := (students demo_store)
         [0 := (students demo_store ! 0)\<lparr>name := title ascii_builtins (strip ascii_builtins ''bob'')\<rparr>]\<rparr>,
      [])
   \<and> fst (update_student ascii_builtins demo_store [''CS001'', ''4'', ''bob'', ''0'', '''', '''']) =
     Updated (fst (save_data (demo_store\<lparr>students := (students demo_store)
         [0 := (students demo_store ! 0)\<lparr>name := title ascii_builtins (strip ascii_builtins ''bob'')\<rparr>]\<rparr>)))"
proof -
  let ?B = ascii_builtins
  let ?e = "\<lparr>roll_number = ''CS001'', name = ''Alice Johnson'', age = ''0'', marks = ''95''\<rparr>"
  have g: "length (strip ?B (name ?e)) < 2 \<or> validate_age ?B (strip ?B (age ?e)) = None
      \<or> validate_marks ?B (strip ?B (marks ?e)) = None"
    by code_simp
  have f: "strip ?B ''CS001'' \<noteq> [] \<and> find_student (students demo_store) (strip ?B ''CS001'') = Some 0"
    by code_simp
  have h1: "strip ?B ''1'' = ''1'' \<and> \<not> validate_name ?B (strip ?B ''x'')"
    and h2: "strip ?B ''2'' = ''2'' \<and> strip ?B ''0'' \<noteq> [] \<and> validate_age ?B (strip ?B ''0'') = None"
    and h3: "strip ?B ''3'' = ''3'' \<and> strip ?B ''101'' \<noteq> [] \<and> validate_marks ?B (strip ?B ''101'') = None"
    and h4: "strip ?B ''4'' = ''4'' \<and> strip ?B ''bob'' \<noteq> [] \<and> validate_name ?B (strip ?B ''bob'')
             \<and> strip ?B ''0'' \<noteq> [] \<and> validate_age ?B (strip ?B ''0'') = None"
    and h5: "strip ?B '''' = [] \<and> strip ?B '''' = []"
    by code_simp+
  note w1 = update_validation_failure [where B = ?B and e = ?e, THEN conjunct1, THEN mp, OF g]
  note w3 = update_validation_failure [where B = ?B and st = demo_store
        and ins = "[''CS001'', ''4'', ''bob'', ''0'', '''', '''']",
      THEN conjunct2, THEN conjunct2, THEN conjunct1]
  note s1 = update_validation_failure [where B = ?B and st = demo_store and l = "''CS001''"
        and i = 0 and c = "''1''" and l_n = "''x''" and ins = "[''bob'']",
      THEN conjunct2, THEN conjunct2, THEN conjunct2, THEN mp, OF f,
      THEN conjunct1, THEN mp, OF h1]
  note s2 = update_validation_failure [where B = ?B and st = demo_store and l = "''CS001''"
        and i = 0 and c = "''2''" and l_a = "''0''" and ins = "[''21'']",
      THEN conjunct2, THEN conjunct2, THEN conjunct2, THEN mp, OF f,
      THEN conjunct2, THEN conjunct1, THEN mp, OF h2]
  note s3 = update_validation_failure [where B = ?B and st = demo_store and l = "''CS001''"
        and i = 0 and c = "''3''" and l_m = "''101''" and ins = "[''90'']",
      THEN conjunct2, THEN conjunct2, THEN conjunct2, THEN mp, OF f,
      THEN conjunct2, THEN conjunct2, THEN conjunct1, THEN mp, OF h3]
  note p = update_validation_failure [where B = ?B and st = demo_store and l = "''CS001''"
        and i = 0 and c = "''4''" and l_v = "''bob''" and l_a = "''0''"
        and ?b1.0 = "''''" and ?b2.0 = "''''" and ins = "[]",
      THEN conjunct2, THEN conjunct2, THEN conjunct2, THEN mp, OF f,
      THEN conjunct2, THEN conjunct2, THEN conjunct2, THEN mp, OF h4]
  note p1 = p [THEN conjunct1]
  note p2 = p [THEN conjunct2, THEN mp, OF h5]
  from w1 w3 s1 s2 s3 p1 show ?thesis
    by (simp add: p2)
qed

end
